theory Spec2Isabelle
  imports Complex_Main "HOL-Library.Monad_Syntax" "HOL-Library.AList"
    "HOL-Library.Char_ord" "HOL-Library.List_Lexorder"
begin

section \<open>The CP-SAT model as the two scripts use it\<close>

text \<open>
  Both scripts build a \<open>cp_model.CpModel\<close> and hand it to the solver of the OR-tools
  library. The model is a list of named boolean variables and a list of constraints.
  \<open>NewBoolVar\<close> returns the next free variable index; the three constraint forms the
  scripts use are a linear relation over boolean variables (\<open>Add\<close>), \<open>AddBoolAnd\<close> and
  \<open>AddBoolOr\<close>, each optionally guarded by the literals of an \<open>OnlyEnforceIf\<close> call.
  The solver itself is an external library: what is fixed here is the meaning of a
  constraint under a full assignment, as the library documents it.
\<close>

type_synonym var = nat

datatype literal = Var var | NotVar var

datatype relation = EQ | LE | GE

datatype expression =
    Linear "(int \<times> var) list" relation int
  | BoolAnd "literal list"
  | BoolOr "literal list"

record constraint =
  expr :: expression
  enforce :: "literal list"

record CpModel =
  names :: "string list"
  constraints :: "constraint list"

definition new_model :: CpModel where
  "new_model = \<lparr>names = [], constraints = []\<rparr>"

definition NewBoolVar :: "string \<Rightarrow> CpModel \<Rightarrow> var \<times> CpModel" where
  "NewBoolVar name m = (length (names m), m\<lparr>names := names m @ [name]\<rparr>)"

text \<open>
  \<open>model.Add(e).OnlyEnforceIf(ls)\<close> and its two siblings: the second argument is the
  list of enforcement literals, \<open>[]\<close> where the source has no \<open>OnlyEnforceIf\<close>.
\<close>

definition add_constraint :: "expression \<Rightarrow> literal list \<Rightarrow> CpModel \<Rightarrow> CpModel" where
  "add_constraint e ls m = m\<lparr>constraints := constraints m @ [\<lparr>expr = e, enforce = ls\<rparr>]\<rparr>"

text \<open>\<open>sum([x1, ..., xn])\<close> over boolean variables: every coefficient is 1.\<close>

definition sum_vars :: "var list \<Rightarrow> (int \<times> var) list" where
  "sum_vars vs = map (\<lambda>v. (1, v)) vs"

definition Add :: "(int \<times> var) list \<Rightarrow> relation \<Rightarrow> int \<Rightarrow> literal list \<Rightarrow> CpModel \<Rightarrow> CpModel" where
  "Add ts r k ls m = add_constraint (Linear ts r k) ls m"

definition AddBoolAnd :: "literal list \<Rightarrow> literal list \<Rightarrow> CpModel \<Rightarrow> CpModel" where
  "AddBoolAnd xs ls m = add_constraint (BoolAnd xs) ls m"

definition AddBoolOr :: "literal list \<Rightarrow> literal list \<Rightarrow> CpModel \<Rightarrow> CpModel" where
  "AddBoolOr xs ls m = add_constraint (BoolOr xs) ls m"

subsection \<open>Assignments and what a constraint means\<close>

text \<open>
  A full assignment gives every variable of the model a boolean: a list indexed by
  variable. \<open>Value\<close> is what the solution callback reads.
\<close>

type_synonym assignment = "bool list"

definition Value :: "assignment \<Rightarrow> var \<Rightarrow> bool" where
  "Value a v = a ! v"

fun lit_value :: "assignment \<Rightarrow> literal \<Rightarrow> bool" where
  "lit_value a (Var v) = Value a v"
| "lit_value a (NotVar v) = (\<not> Value a v)"

definition lin_value :: "assignment \<Rightarrow> (int \<times> var) list \<Rightarrow> int" where
  "lin_value a ts = sum_list (map (\<lambda>(k, v). k * of_bool (Value a v)) ts)"

fun compare :: "relation \<Rightarrow> int \<Rightarrow> int \<Rightarrow> bool" where
  "compare EQ x k = (x = k)"
| "compare LE x k = (x \<le> k)"
| "compare GE x k = (x \<ge> k)"

fun expr_holds :: "assignment \<Rightarrow> expression \<Rightarrow> bool" where
  "expr_holds a (Linear ts r k) = compare r (lin_value a ts) k"
| "expr_holds a (BoolAnd xs) = list_all (lit_value a) xs"
| "expr_holds a (BoolOr xs) = list_ex (lit_value a) xs"

definition holds :: "assignment \<Rightarrow> constraint \<Rightarrow> bool" where
  "holds a c = (list_all (lit_value a) (enforce c) \<longrightarrow> expr_holds a (expr c))"

text \<open>A solution: one boolean per declared variable, every constraint satisfied.\<close>

definition solution :: "CpModel \<Rightarrow> assignment \<Rightarrow> bool" where
  "solution m a = (length a = length (names m) \<and> list_all (holds a) (constraints m))"

section \<open>The logic puzzle\<close>

subsection \<open>Objects, attributes and predicates\<close>

text \<open>
  A dictionary is an association list in insertion order; \<open>d[k] = v\<close> is
  \<open>AList.update k v d\<close> and \<open>d[k]\<close> is \<open>map_of d k\<close>, where \<open>None\<close> is the
  \<open>KeyError\<close> the source raises on a missing key. A predicate is a dictionary of
  dictionaries: student, then attribute value, then the variable.
\<close>

type_synonym 'a dict = "(string \<times> 'a) list"

type_synonym predicate = "var dict dict"

definition lookup :: "predicate \<Rightarrow> string \<Rightarrow> string \<Rightarrow> var option" where
  "lookup d student x = do { variables \<leftarrow> map_of d student; map_of variables x }"

text \<open>The inner loop: one fresh variable per attribute value, named student + value.\<close>

fun attribute_loop ::
  "string \<Rightarrow> string list \<Rightarrow> var dict \<Rightarrow> CpModel \<Rightarrow> var dict \<times> CpModel" where
  "attribute_loop student [] variables m = (variables, m)"
| "attribute_loop student (x # xs) variables m =
     (case NewBoolVar (student @ x) m of
        (v, m') \<Rightarrow> attribute_loop student xs (AList.update x v variables) m')"

text \<open>The outer loop over the students; the source writes it once per predicate.\<close>

fun student_loop ::
  "string list \<Rightarrow> string list \<Rightarrow> predicate \<Rightarrow> CpModel \<Rightarrow> predicate \<times> CpModel" where
  "student_loop [] attrs d m = (d, m)"
| "student_loop (student # rest) attrs d m =
     (case attribute_loop student attrs [] m of
        (variables, m') \<Rightarrow> student_loop rest attrs (AList.update student variables d) m')"

text \<open>
  What \<open>objects_attributes_predicates\<close> returns: the object domain, the three attribute
  domains and the three predicates.
\<close>

record puzzle =
  students :: "string list"
  nationalities :: "string list"
  universities :: "string list"
  courses :: "string list"
  student_nationality :: predicate
  student_university :: predicate
  student_course :: predicate

definition objects_attributes_predicates :: "CpModel \<Rightarrow> puzzle \<times> CpModel" where
  "objects_attributes_predicates m =
     (let studs = [''Carol'', ''Elisa'', ''Oliver'', ''Lucas''];
          nats = [''USA'', ''Canada'', ''Australia'', ''South Africa''];
          (sn, m) = student_loop studs nats [] m;
          unis = [''London'', ''Oxford'', ''Cambridge'', ''Edinburgh''];
          (su, m) = student_loop studs unis [] m;
          crs = [''History'', ''Medicine'', ''Law'', ''Architecture''];
          (sc, m) = student_loop studs crs [] m
      in (\<lparr>students = studs, nationalities = nats, universities = unis, courses = crs,
           student_nationality = sn, student_university = su, student_course = sc\<rparr>, m))"

subsection \<open>Explicit constraints\<close>

text \<open>The list comprehension \<open>[d[student][x] for student in students]\<close>.\<close>

fun column :: "predicate \<Rightarrow> string list \<Rightarrow> string \<Rightarrow> var list option" where
  "column d [] x = Some []"
| "column d (student # rest) x =
     do { v \<leftarrow> lookup d student x; vs \<leftarrow> column d rest x; Some (v # vs) }"

text \<open>The list comprehension \<open>[d[student][x] for x in xs]\<close>.\<close>

fun row :: "predicate \<Rightarrow> string \<Rightarrow> string list \<Rightarrow> var list option" where
  "row d student [] = Some []"
| "row d student (x # xs) =
     do { v \<leftarrow> lookup d student x; vs \<leftarrow> row d student xs; Some (v # vs) }"

text \<open>Sentences (6) and (7): one guarded disjunction per student.\<close>

fun guarded_or_loop ::
  "string list \<Rightarrow> predicate \<Rightarrow> string \<Rightarrow> predicate \<Rightarrow> string \<Rightarrow> predicate \<Rightarrow> string
     \<Rightarrow> CpModel \<Rightarrow> CpModel option" where
  "guarded_or_loop [] d1 x1 d2 x2 dg xg m = Some m"
| "guarded_or_loop (student # rest) d1 x1 d2 x2 dg xg m =
     do { a \<leftarrow> lookup d1 student x1;
          b \<leftarrow> lookup d2 student x2;
          g \<leftarrow> lookup dg student xg;
          guarded_or_loop rest d1 x1 d2 x2 dg xg (AddBoolOr [Var a, Var b] [Var g] m) }"

definition add_explicit_constraints ::
  "string list \<Rightarrow> predicate \<Rightarrow> predicate \<Rightarrow> predicate \<Rightarrow> CpModel \<Rightarrow> CpModel option" where
  "add_explicit_constraints studs sn su sc m =
     do { london \<leftarrow> column su studs ''London'';
          let m = Add (sum_vars london) EQ 1 [] m;
          carol_cambridge \<leftarrow> lookup su ''Carol'' ''Cambridge'';
          elisa_edinburgh \<leftarrow> lookup su ''Elisa'' ''Edinburgh'';
          let m = Add (sum_vars [carol_cambridge, elisa_edinburgh]) EQ 1 [] m;
          oliver_oxford \<leftarrow> lookup su ''Oliver'' ''Oxford'';
          lucas_london \<leftarrow> lookup su ''Lucas'' ''London'';
          let m = Add (sum_vars [oliver_oxford, lucas_london]) EQ 1 [] m;
          oliver_australia \<leftarrow> lookup sn ''Oliver'' ''Australia'';
          lucas_history \<leftarrow> lookup sc ''Lucas'' ''History'';
          oliver_history \<leftarrow> lookup sc ''Oliver'' ''History'';
          let m = AddBoolAnd [Var oliver_australia, Var lucas_history] [NotVar oliver_history] m;
          lucas_australia \<leftarrow> lookup sn ''Lucas'' ''Australia'';
          oliver_history \<leftarrow> lookup sc ''Oliver'' ''History'';
          lucas_history \<leftarrow> lookup sc ''Lucas'' ''History'';
          let m = AddBoolAnd [Var lucas_australia, Var oliver_history] [NotVar lucas_history] m;
          carol_cambridge \<leftarrow> lookup su ''Carol'' ''Cambridge'';
          elisa_medicine \<leftarrow> lookup sc ''Elisa'' ''Medicine'';
          carol_medicine \<leftarrow> lookup sc ''Carol'' ''Medicine'';
          let m = AddBoolAnd [Var carol_cambridge, Var elisa_medicine] [NotVar carol_medicine] m;
          elisa_cambridge \<leftarrow> lookup su ''Elisa'' ''Cambridge'';
          carol_medicine \<leftarrow> lookup sc ''Carol'' ''Medicine'';
          elisa_medicine \<leftarrow> lookup sc ''Elisa'' ''Medicine'';
          let m = AddBoolAnd [Var elisa_cambridge, Var carol_medicine] [NotVar elisa_medicine] m;
          oliver_usa \<leftarrow> lookup sn ''Oliver'' ''USA'';
          oliver_law \<leftarrow> lookup sc ''Oliver'' ''Law'';
          let m = AddBoolOr [Var oliver_usa, Var oliver_law] [] m;
          oliver_south_africa \<leftarrow> lookup sn ''Oliver'' ''South Africa'';
          let m = AddBoolAnd [NotVar oliver_south_africa] [] m;
          m \<leftarrow> guarded_or_loop studs sc ''History'' su ''Oxford'' sn ''Canada'' m;
          guarded_or_loop studs sc ''Law'' su ''Edinburgh'' sn ''South Africa'' m }"

subsection \<open>Implicit constraints\<close>

text \<open>Loops (1) to (3): for each attribute value, the sum over the students is 1.\<close>

fun value_loop :: "string list \<Rightarrow> string list \<Rightarrow> predicate \<Rightarrow> CpModel \<Rightarrow> CpModel option" where
  "value_loop [] studs d m = Some m"
| "value_loop (x # xs) studs d m =
     do { vs \<leftarrow> column d studs x;
          value_loop xs studs d (Add (sum_vars vs) EQ 1 [] m) }"

text \<open>Loop (4): for each student, the sum over the values of each predicate is 1.\<close>

fun once_loop ::
  "string list \<Rightarrow> string list \<Rightarrow> string list \<Rightarrow> string list
     \<Rightarrow> predicate \<Rightarrow> predicate \<Rightarrow> predicate \<Rightarrow> CpModel \<Rightarrow> CpModel option" where
  "once_loop [] nats unis crs sn su sc m = Some m"
| "once_loop (student # rest) nats unis crs sn su sc m =
     do { ns \<leftarrow> row sn student nats;
          let m = Add (sum_vars ns) EQ 1 [] m;
          us \<leftarrow> row su student unis;
          let m = Add (sum_vars us) EQ 1 [] m;
          cs \<leftarrow> row sc student crs;
          let m = Add (sum_vars cs) EQ 1 [] m;
          once_loop rest nats unis crs sn su sc m }"

definition add_implicit_constraints ::
  "string list \<Rightarrow> string list \<Rightarrow> string list \<Rightarrow> string list
     \<Rightarrow> predicate \<Rightarrow> predicate \<Rightarrow> predicate \<Rightarrow> CpModel \<Rightarrow> CpModel option" where
  "add_implicit_constraints studs nats unis crs sn su sc m =
     do { m \<leftarrow> value_loop nats studs sn m;
          m \<leftarrow> value_loop unis studs su m;
          m \<leftarrow> value_loop crs studs sc m;
          once_loop studs nats unis crs sn su sc m }"

subsection \<open>The solution printer and \<open>solve\<close>\<close>

text \<open>
  What a script prints is a list of print calls. One print call is the list of the
  pieces of its text: literal text (numbers formatted into it with \<open>str_nat\<close> and
  \<open>str_int\<close>), a DataFrame printed with \<open>to_string\<close> (its rows), a float, or the
  names of a list printed with \<open>str\<close>.
\<close>

datatype piece = Str string | Frame "string list list" | Float rat | NameList "string list"

type_synonym printed = "piece list"

fun str_nat :: "nat \<Rightarrow> string" where
  "str_nat n =
     (if n < 10 then [''0123456789'' ! n]
      else str_nat (n div 10) @ [''0123456789'' ! (n mod 10)])"

declare str_nat.simps [simp del]

definition str_int :: "int \<Rightarrow> string" where
  "str_int i = (if i < 0 then ''-'' @ str_nat (nat (- i)) else str_nat (nat i))"

text \<open>
  The loop \<open>for x in xs: if self.Value(d[student][x]): break\<close>. The last argument and
  the result are the loop variable before and after the loop (\<open>None\<close>: not bound yet);
  the outer \<open>None\<close> is a \<open>KeyError\<close>.
\<close>

fun first_true ::
  "assignment \<Rightarrow> predicate \<Rightarrow> string \<Rightarrow> string list \<Rightarrow> string option \<Rightarrow> string option option" where
  "first_true a d student [] cur = Some cur"
| "first_true a d student (x # xs) cur =
     do { v \<leftarrow> lookup d student x;
          if Value a v then Some (Some x) else first_true a d student xs (Some x) }"

text \<open>
  The loop over the students. The three loop variables are locals of the callback, so
  they live on from one student to the next; reading one that was never bound raises
  (\<open>None\<close>). Every student appends one row to the DataFrame.
\<close>

fun rows_loop ::
  "assignment \<Rightarrow> 'z puzzle_scheme \<Rightarrow> string list
     \<Rightarrow> string option \<times> string option \<times> string option \<Rightarrow> string list list
     \<Rightarrow> string list list option" where
  "rows_loop a sp [] locals rows = Some rows"
| "rows_loop a sp (student # rest) (n0, u0, c0) rows =
     do { n \<leftarrow> first_true a (student_nationality sp) student (nationalities sp) n0;
          u \<leftarrow> first_true a (student_university sp) student (universities sp) u0;
          c \<leftarrow> first_true a (student_course sp) student (courses sp) c0;
          nationality \<leftarrow> n;
          university \<leftarrow> u;
          course \<leftarrow> c;
          rows_loop a sp rest (n, u, c) (rows @ [[student, nationality, university, course]]) }"

record SolutionPrinter = puzzle +
  n_solutions :: nat

definition SolutionPrinter_init :: "puzzle \<Rightarrow> SolutionPrinter" where
  "SolutionPrinter_init pz =
     \<lparr>students = students pz, nationalities = nationalities pz,
      universities = universities pz, courses = courses pz,
      student_nationality = student_nationality pz,
      student_university = student_university pz,
      student_course = student_course pz, n_solutions = 0\<rparr>"

definition OnSolutionCallback ::
  "assignment \<Rightarrow> SolutionPrinter \<Rightarrow> (SolutionPrinter \<times> printed list) option" where
  "OnSolutionCallback a sp =
     do { puzzle_solution \<leftarrow> rows_loop a sp (students sp) (None, None, None) [];
          let sp = sp\<lparr>n_solutions := n_solutions sp + 1\<rparr>;
          Some (sp, [[Str (''Feasible solution #'' @ str_nat (n_solutions sp))],
                     [Str (replicate 20 CHR ''*'')],
                     [Frame puzzle_solution],
                     [Str (replicate 48 CHR ''='')]]) }"

definition SolutionCount :: "'z SolutionPrinter_scheme \<Rightarrow> nat" where
  "SolutionCount sp = n_solutions sp"

text \<open>
  The solver is the library's: for a model it finds a list of assignments, calling the
  callback on each in turn, and then reports a status name and its wall time. The time
  is a float; it is taken here as the rational it stands for.
\<close>

record response =
  found :: "assignment list"
  status_name :: string
  wall_time :: rat

type_synonym solver = "CpModel \<Rightarrow> response"

text \<open>
  \<open>SearchForAllSolutions\<close> runs the callback once per assignment found, in order; the
  printer and what was printed so far are threaded through.
\<close>

fun SearchForAllSolutions ::
  "(assignment \<Rightarrow> 's \<Rightarrow> ('s \<times> printed list) option) \<Rightarrow> assignment list \<Rightarrow> 's \<Rightarrow> printed list
     \<Rightarrow> ('s \<times> printed list) option" where
  "SearchForAllSolutions callback [] sp out = Some (sp, out)"
| "SearchForAllSolutions callback (a # as) sp out =
     do { (sp, block) \<leftarrow> callback a sp;
          SearchForAllSolutions callback as sp (out @ block) }"

text \<open>Python's \<open>round(x, 2)\<close>: to the nearest multiple of 1/100, a tie to the even one.\<close>

definition round_half_even :: "rat \<Rightarrow> int" where
  "round_half_even x =
     (let f = \<lfloor>x\<rfloor>; d = x - of_int f
      in if d < 1 / 2 then f else if 1 / 2 < d then f + 1 else if even f then f else f + 1)"

definition round2 :: "rat \<Rightarrow> rat" where
  "round2 x = of_int (round_half_even (x * 100)) / 100"

text \<open>The three lines both scripts print after the search.\<close>

definition summary :: "response \<Rightarrow> nat \<Rightarrow> printed list" where
  "summary r n =
     [[Str (''Optimisation finished, solver status: '' @ status_name r @ ''.'')],
      [Str ''Total time elapsed (seconds): '', Float (round2 (wall_time r))],
      [Str (''Total number of solutions found: '' @ str_nat n)]]"

text \<open>Steps 1 to 3 of \<open>LogicPuzzle.solve\<close>: the variables and the finished model.\<close>

definition puzzle_model :: "(puzzle \<times> CpModel) option" where
  "puzzle_model =
     (case objects_attributes_predicates new_model of
        (pz, m) \<Rightarrow>
          do { m \<leftarrow> add_explicit_constraints (students pz) (student_nationality pz)
                      (student_university pz) (student_course pz) m;
               m \<leftarrow> add_implicit_constraints (students pz) (nationalities pz)
                      (universities pz) (courses pz) (student_nationality pz)
                      (student_university pz) (student_course pz) m;
               Some (pz, m) })"

definition puzzle_solve :: "solver \<Rightarrow> printed list option" where
  "puzzle_solve slv =
     do { (pz, m) \<leftarrow> puzzle_model;
          let sol_printer = SolutionPrinter_init pz;
          let out = [[Str ''Searching for all solutions...'']];
          let r = slv m;
          (sol_printer, out) \<leftarrow> SearchForAllSolutions OnSolutionCallback (found r) sol_printer out;
          Some (out @ summary r (SolutionCount sol_printer)) }"

section \<open>The project-planning script\<close>

subsection \<open>The spreadsheet\<close>

text \<open>
  A DataFrame: the row labels (the first column of the sheet, \<open>index_col=0\<close>), the
  column labels and the cells by row. \<open>iloc\<close> gives a row as a Series, each cell with
  its column label. An empty cell (NaN) is \<open>None\<close>.
\<close>

record 'a DataFrame =
  index :: "string list"
  columns :: "string list"
  cells :: "'a list list"

definition len :: "'a DataFrame \<Rightarrow> nat" where
  "len df = length (cells df)"

definition iloc :: "'a DataFrame \<Rightarrow> nat \<Rightarrow> (string \<times> 'a) list" where
  "iloc df r = zip (columns df) (cells df ! r)"

text \<open>
  \<open>pd.read_excel(..., sheet_name=None)\<close> returns a dictionary of the sheets of the
  workbook. The four sheets the script reads: job names by project and month, quotes
  by contractor and job, dependency marks by project and project, and one value per
  project. A sheet that is absent is \<open>None\<close>: \<open>data['Projects']\<close> raises \<open>KeyError\<close>.
\<close>

record workbook =
  sheet_Projects :: "string option DataFrame option"
  sheet_Quotes :: "rat option DataFrame option"
  sheet_Dependencies :: "string option DataFrame option"
  sheet_Value :: "rat DataFrame option"

record plan_row =
  Contractor :: nat
  Job :: nat
  Project :: nat
  Month :: nat
  Quote :: rat

text \<open>The key of \<open>var_hiring\<close>: \<open>tuple(project_plan.iloc[row][:-1].astype(int))\<close>.\<close>

type_synonym key = "nat \<times> nat \<times> nat \<times> nat"

definition key_of :: "plan_row \<Rightarrow> key" where
  "key_of r = (Contractor r, Job r, Project r, Month r)"

text \<open>
  The four nested loops of \<open>import_data\<close>. \<open>qualified_jobs\<close> are the jobs a contractor
  has a quote for (position, column label and quote); \<open>running_month\<close> are the months
  in which a project needs a job (the cell of the project equals the job's column
  label). Every contractor, qualified job, project and running month gives one row.
\<close>

definition qualified_jobs :: "rat option DataFrame \<Rightarrow> nat \<Rightarrow> (nat \<times> string \<times> rat) list" where
  "qualified_jobs quotes c = [(j, job, q). (j, job, Some q) \<leftarrow> enumerate 0 (iloc quotes c)]"

definition running_month :: "string option DataFrame \<Rightarrow> nat \<Rightarrow> string \<Rightarrow> nat list" where
  "running_month projects p job =
     [m. (m, month, Some needed) \<leftarrow> enumerate 0 (iloc projects p), needed = job]"

definition stacked ::
  "string option DataFrame \<Rightarrow> rat option DataFrame \<Rightarrow> plan_row list" where
  "stacked projects quotes =
     [\<lparr>Contractor = c, Job = j, Project = p, Month = m, Quote = q\<rparr>.
        c \<leftarrow> [0..<len quotes],
        (j, job, q) \<leftarrow> qualified_jobs quotes c,
        p \<leftarrow> [0..<len projects],
        m \<leftarrow> running_month projects p job]"

definition import_data ::
  "workbook \<Rightarrow> (string option DataFrame \<times> rat option DataFrame \<times> string option DataFrame
     \<times> rat DataFrame \<times> plan_row list) option" where
  "import_data data =
     do { projects \<leftarrow> sheet_Projects data;
          quotes \<leftarrow> sheet_Quotes data;
          dependencies \<leftarrow> sheet_Dependencies data;
          value \<leftarrow> sheet_Value data;
          Some (projects, quotes, dependencies, value, stacked projects quotes) }"

subsection \<open>Decision variables\<close>

fun project_vars :: "nat list \<Rightarrow> var list \<Rightarrow> CpModel \<Rightarrow> var list \<times> CpModel" where
  "project_vars [] var_projects m = (var_projects, m)"
| "project_vars (p # ps) var_projects m =
     (case NewBoolVar (''p_'' @ str_nat p) m of
        (v, m') \<Rightarrow> project_vars ps (var_projects @ [v]) m')"

fun hiring_vars ::
  "plan_row list \<Rightarrow> (key \<times> var) list \<Rightarrow> CpModel \<Rightarrow> (key \<times> var) list \<times> CpModel" where
  "hiring_vars [] var_hiring m = (var_hiring, m)"
| "hiring_vars (r # rs) var_hiring m =
     (case NewBoolVar (''h_'' @ str_nat (Contractor r) @ ''_'' @ str_nat (Job r) @ ''_''
                         @ str_nat (Project r) @ ''_'' @ str_nat (Month r)) m of
        (v, m') \<Rightarrow> hiring_vars rs (AList.update (key_of r) v var_hiring) m')"

definition identify_and_create_variables ::
  "plan_row list \<Rightarrow> 'a DataFrame \<Rightarrow> CpModel \<Rightarrow> var list \<times> (key \<times> var) list \<times> CpModel" where
  "identify_and_create_variables project_plan projects m =
     (case project_vars [0..<len projects] [] m of
        (var_projects, m1) \<Rightarrow>
          (case hiring_vars project_plan [] m1 of
             (var_hiring, m2) \<Rightarrow> (var_projects, var_hiring, m2)))"

subsection \<open>Constraints\<close>

text \<open>\<open>xs[i]\<close> on a list: \<open>IndexError\<close> (\<open>None\<close>) out of range.\<close>

definition nth_opt :: "'a list \<Rightarrow> nat \<Rightarrow> 'a option" where
  "nth_opt xs i = (if i < length xs then Some (xs ! i) else None)"

text \<open>A \<open>for\<close> loop over a list whose body updates the model and may raise.\<close>

fun for_each :: "'a list \<Rightarrow> ('a \<Rightarrow> 's \<Rightarrow> 's option) \<Rightarrow> 's \<Rightarrow> 's option" where
  "for_each [] body s = Some s"
| "for_each (x # xs) body s = do { s' \<leftarrow> body x s; for_each xs body s' }"

text \<open>\<open>Series.unique()\<close>: the distinct values in order of first appearance.\<close>

fun unique :: "'a list \<Rightarrow> 'a list" where
  "unique [] = []"
| "unique (x # xs) = x # unique (filter (\<lambda>y. y \<noteq> x) xs)"

text \<open>
  \<open>sum([var_hiring[(row.Contractor, row.Job, row.Project, row.Month)] for row in query])\<close>:
  a missing key raises.
\<close>

definition hiring_sum :: "(key \<times> var) list \<Rightarrow> plan_row list \<Rightarrow> (int \<times> var) list option" where
  "hiring_sum var_hiring query =
     map_option sum_vars (those (map (\<lambda>r. map_of var_hiring (key_of r)) query))"

text \<open>C.1: a contractor cannot work on two projects in one month.\<close>

definition C1_month ::
  "plan_row list \<Rightarrow> (key \<times> var) list \<Rightarrow> nat \<Rightarrow> nat \<Rightarrow> CpModel \<Rightarrow> CpModel option" where
  "C1_month project_plan var_hiring c m model =
     (let max_n_projects = 1;
          query = filter (\<lambda>r. Contractor r = c \<and> Month r = m) project_plan
      in if length query > max_n_projects
         then do { e \<leftarrow> hiring_sum var_hiring query;
                   Some (Add e LE (int max_n_projects) [] model) }
         else Some model)"

definition constraints_C1 ::
  "plan_row list \<Rightarrow> 'a DataFrame \<Rightarrow> (key \<times> var) list \<Rightarrow> CpModel \<Rightarrow> CpModel option" where
  "constraints_C1 project_plan quotes var_hiring model =
     for_each [0..<len quotes]
       (\<lambda>c. for_each (unique (map Month (filter (\<lambda>r. Contractor r = c) project_plan)))
               (C1_month project_plan var_hiring c)) model"

text \<open>C.2: a project that is taken on has exactly one contractor per month.\<close>

definition C2_month ::
  "plan_row list \<Rightarrow> (key \<times> var) list \<Rightarrow> var list \<Rightarrow> nat \<Rightarrow> nat \<Rightarrow> CpModel \<Rightarrow> CpModel option" where
  "C2_month project_plan var_hiring var_projects p m model =
     (let max_n_contractors = 1;
          query = filter (\<lambda>r. Project r = p \<and> Month r = m) project_plan
      in if length query > max_n_contractors
         then do { e \<leftarrow> hiring_sum var_hiring query;
                   v \<leftarrow> nth_opt var_projects p;
                   Some (Add e EQ (int max_n_contractors) [Var v] model) }
         else Some model)"

definition constraints_C2 ::
  "plan_row list \<Rightarrow> 'a DataFrame \<Rightarrow> (key \<times> var) list \<Rightarrow> var list \<Rightarrow> CpModel \<Rightarrow> CpModel option" where
  "constraints_C2 project_plan projects var_hiring var_projects model =
     for_each [0..<len projects]
       (\<lambda>p. for_each (unique (map Month (filter (\<lambda>r. Project r = p) project_plan)))
               (C2_month project_plan var_hiring var_projects p)) model"

text \<open>C.3: nobody is contracted for a project that is not taken on.\<close>

definition C3_project ::
  "plan_row list \<Rightarrow> (key \<times> var) list \<Rightarrow> var list \<Rightarrow> nat \<Rightarrow> CpModel \<Rightarrow> CpModel option" where
  "C3_project project_plan var_hiring var_projects p model =
     (let query = filter (\<lambda>r. Project r = p) project_plan
      in do { e \<leftarrow> hiring_sum var_hiring query;
              v \<leftarrow> nth_opt var_projects p;
              Some (Add e EQ 0 [NotVar v] model) })"

definition constraints_C3 ::
  "plan_row list \<Rightarrow> 'a DataFrame \<Rightarrow> (key \<times> var) list \<Rightarrow> var list \<Rightarrow> CpModel \<Rightarrow> CpModel option" where
  "constraints_C3 project_plan projects var_hiring var_projects model =
     for_each [0..<len projects] (C3_project project_plan var_hiring var_projects) model"

text \<open>C.4: one implication per non-empty cell of the Dependencies sheet.\<close>

definition project_dependencies :: "'a option DataFrame \<Rightarrow> nat \<Rightarrow> nat list" where
  "project_dependencies dependencies p =
     [i. (i, label, Some x) \<leftarrow> enumerate 0 (iloc dependencies p)]"

definition C4_dependency :: "var list \<Rightarrow> nat \<Rightarrow> nat \<Rightarrow> CpModel \<Rightarrow> CpModel option" where
  "C4_dependency var_projects p d model =
     do { vd \<leftarrow> nth_opt var_projects d;
          vp \<leftarrow> nth_opt var_projects p;
          Some (AddBoolAnd [Var vd] [Var vp] model) }"

definition constraints_C4 :: "'a option DataFrame \<Rightarrow> var list \<Rightarrow> CpModel \<Rightarrow> CpModel option" where
  "constraints_C4 dependencies var_projects model =
     for_each [0..<len dependencies]
       (\<lambda>p. for_each (project_dependencies dependencies p) (C4_dependency var_projects p)) model"

text \<open>
  C.5: the profit margin. \<open>astype(int)\<close> on a float drops the fraction. The revenue and
  the costs are linear expressions; their difference negates the coefficients of the
  costs.
\<close>

definition astype_int :: "rat \<Rightarrow> int" where
  "astype_int x = (if 0 \<le> x then \<lfloor>x\<rfloor> else \<lceil>x\<rceil>)"

definition value_of :: "rat DataFrame \<Rightarrow> nat \<Rightarrow> int option" where
  "value_of value p = map_option astype_int (nth_opt (map snd (iloc value p)) 0)"

definition revenue_expr :: "rat DataFrame \<Rightarrow> var list \<Rightarrow> (int \<times> var) list option" where
  "revenue_expr value var_projects =
     those (map (\<lambda>p. do { x \<leftarrow> value_of value p;
                           v \<leftarrow> nth_opt var_projects p;
                           Some (x, v) }) [0..<len value])"

definition costs_expr :: "plan_row list \<Rightarrow> (key \<times> var) list \<Rightarrow> (int \<times> var) list option" where
  "costs_expr project_plan var_hiring =
     those (map (\<lambda>r. do { v \<leftarrow> map_of var_hiring (key_of r);
                           Some (astype_int (Quote r), v) }) project_plan)"

definition minus_expr :: "(int \<times> var) list \<Rightarrow> (int \<times> var) list \<Rightarrow> (int \<times> var) list" where
  "minus_expr e1 e2 = e1 @ map (\<lambda>(k, v). (- k, v)) e2"

definition constraints_C5 ::
  "plan_row list \<Rightarrow> rat DataFrame \<Rightarrow> (key \<times> var) list \<Rightarrow> var list \<Rightarrow> CpModel
     \<Rightarrow> ((int \<times> var) list \<times> (int \<times> var) list \<times> CpModel) option" where
  "constraints_C5 project_plan value var_hiring var_projects model =
     do { revenue \<leftarrow> revenue_expr value var_projects;
          costs \<leftarrow> costs_expr project_plan var_hiring;
          Some (revenue, costs, Add (minus_expr revenue costs) GE 2500 [] model) }"

definition define_and_implement_constraints ::
  "plan_row list \<Rightarrow> string option DataFrame \<Rightarrow> rat option DataFrame
     \<Rightarrow> string option DataFrame \<Rightarrow> rat DataFrame \<Rightarrow> (key \<times> var) list \<Rightarrow> var list \<Rightarrow> CpModel
     \<Rightarrow> ((int \<times> var) list \<times> (int \<times> var) list \<times> CpModel) option" where
  "define_and_implement_constraints project_plan projects quotes dependencies value
       var_hiring var_projects model =
     do { model \<leftarrow> constraints_C1 project_plan quotes var_hiring model;
          model \<leftarrow> constraints_C2 project_plan projects var_hiring var_projects model;
          model \<leftarrow> constraints_C3 project_plan projects var_hiring var_projects model;
          model \<leftarrow> constraints_C4 dependencies var_projects model;
          constraints_C5 project_plan value var_hiring var_projects model }"

subsection \<open>The solution printer and \<open>solve\<close>\<close>

record PlanningPrinter =
  var_projects :: "var list"
  var_hiring :: "(key \<times> var) list"
  project_plan :: "plan_row list"
  value_df :: "rat DataFrame"
  projects :: "string list"
  months :: "string list"
  contractors :: "string list"
  solutions_counted :: nat

definition PlanningPrinter_init ::
  "var list \<Rightarrow> (key \<times> var) list \<Rightarrow> plan_row list \<Rightarrow> rat DataFrame
     \<Rightarrow> 'a DataFrame \<Rightarrow> 'b DataFrame \<Rightarrow> PlanningPrinter" where
  "PlanningPrinter_init vp vh plan value prjs quotes =
     \<lparr>var_projects = vp, var_hiring = vh, project_plan = plan, value_df = value,
      projects = index prjs, months = columns prjs, contractors = index quotes,
      solutions_counted = 0\<rparr>"

text \<open>The revenue and the costs the callback recomputes from the values of the variables.\<close>

definition callback_revenue :: "assignment \<Rightarrow> PlanningPrinter \<Rightarrow> int option" where
  "callback_revenue a sp =
     map_option sum_list
       (those (map (\<lambda>p. do { x \<leftarrow> value_of (value_df sp) p;
                               v \<leftarrow> nth_opt (var_projects sp) p;
                               Some (x * of_bool (Value a v)) }) [0..<len (value_df sp)]))"

definition callback_costs :: "assignment \<Rightarrow> PlanningPrinter \<Rightarrow> int option" where
  "callback_costs a sp =
     map_option sum_list
       (those (map (\<lambda>r. do { v \<leftarrow> map_of (var_hiring sp) (key_of r);
                               Some (of_bool (Value a v) * astype_int (Quote r)) })
                 (project_plan sp)))"

text \<open>The rows of the plan whose variable is true.\<close>

fun hired_rows :: "assignment \<Rightarrow> (key \<times> var) list \<Rightarrow> plan_row list \<Rightarrow> plan_row list option" where
  "hired_rows a vh [] = Some []"
| "hired_rows a vh (r # rs) =
     do { v \<leftarrow> map_of vh (key_of r);
          rest \<leftarrow> hired_rows a vh rs;
          Some (if Value a v then r # rest else rest) }"

text \<open>One line per contractor, project and month of the solution, in order of appearance.\<close>

definition work_lines :: "PlanningPrinter \<Rightarrow> plan_row list \<Rightarrow> printed list option" where
  "work_lines sp project_solution =
     those
       [do { cn \<leftarrow> nth_opt (contractors sp) c;
             pn \<leftarrow> nth_opt (projects sp) p;
             mn \<leftarrow> nth_opt (months sp) m;
             Some [Str cn, Str ''will work on'', Str pn, Str ''during'', Str mn] }.
          c \<leftarrow> unique (map Contractor project_solution),
          p \<leftarrow> unique (map Project (filter (\<lambda>r. Contractor r = c) project_solution)),
          m \<leftarrow> unique (map Month
                  (filter (\<lambda>r. Contractor r = c \<and> Project r = p) project_solution))]"

definition planning_OnSolutionCallback ::
  "assignment \<Rightarrow> PlanningPrinter \<Rightarrow> (PlanningPrinter \<times> printed list) option" where
  "planning_OnSolutionCallback a sp =
     do { revenue \<leftarrow> callback_revenue a sp;
          costs \<leftarrow> callback_costs a sp;
          project_solution \<leftarrow> hired_rows a (var_hiring sp) (project_plan sp);
          let sp = sp\<lparr>solutions_counted := solutions_counted sp + 1\<rparr>;
          projects_to_take_on \<leftarrow>
            those (map (nth_opt (projects sp)) (unique (map Project project_solution)));
          work \<leftarrow> work_lines sp project_solution;
          Some (sp, [[Str (''Feasible solution #'' @ str_nat (solutions_counted sp))],
                     [Str (replicate 20 CHR ''*'')],
                     [Str ''Projects that are taken on: '', NameList (sort projects_to_take_on)],
                     [Str (replicate 45 CHR ''-'')]]
                    @ work @
                    [[Str (replicate 45 CHR ''-'')],
                     [Str ''Revenue:'', Str (str_int revenue)],
                     [Str ''Costs:'', Str (str_int costs)],
                     [Str ''Profit margin:'', Str (str_int (revenue - costs))],
                     [Str (replicate 45 CHR ''='')]]) }"

definition planning_SolutionCount :: "PlanningPrinter \<Rightarrow> nat" where
  "planning_SolutionCount sp = solutions_counted sp"

text \<open>Steps 1 to 3 of \<open>ProjectPlanning.solve\<close>: the data, the variables and the model.\<close>

record planning =
  pl_projects :: "string option DataFrame"
  pl_quotes :: "rat option DataFrame"
  pl_dependencies :: "string option DataFrame"
  pl_value :: "rat DataFrame"
  pl_project_plan :: "plan_row list"
  pl_var_projects :: "var list"
  pl_var_hiring :: "(key \<times> var) list"
  pl_model :: CpModel

definition planning_model :: "workbook \<Rightarrow> planning option" where
  "planning_model data =
     do { (prjs, quotes, dependencies, value, plan) \<leftarrow> import_data data;
          (vp, vh, m) \<leftarrow> Some (identify_and_create_variables plan prjs new_model);
          (revenue, costs, m) \<leftarrow>
            define_and_implement_constraints plan prjs quotes dependencies value vh vp m;
          Some \<lparr>pl_projects = prjs, pl_quotes = quotes, pl_dependencies = dependencies,
                pl_value = value, pl_project_plan = plan, pl_var_projects = vp,
                pl_var_hiring = vh, pl_model = m\<rparr> }"

definition planning_solve :: "workbook \<Rightarrow> solver \<Rightarrow> printed list option" where
  "planning_solve data slv =
     do { pl \<leftarrow> planning_model data;
          let sol_printer = PlanningPrinter_init (pl_var_projects pl) (pl_var_hiring pl)
                (pl_project_plan pl) (pl_value pl) (pl_projects pl) (pl_quotes pl);
          let out = [[Str ''Searching for all solutions...'']];
          let r = slv (pl_model pl);
          (sol_printer, out) \<leftarrow>
            SearchForAllSolutions planning_OnSolutionCallback (found r) sol_printer out;
          Some (out @ summary r (planning_SolutionCount sol_printer)) }"

section \<open>The values the puzzle builder computes\<close>

text \<open>
  The builder runs on fixed data, so its results are concrete: the predicates with the
  variable of every student and attribute value, the variable names, and the
  constraints the two encoders add. That these are the values of the functions above
  is proved below (\<open>oap_new_model\<close>, \<open>explicit_eval\<close>, \<open>implicit_eval\<close>).
\<close>

definition puzzle_variables :: puzzle where
  "puzzle_variables =
    \<lparr>students = [''Carol'', ''Elisa'', ''Oliver'', ''Lucas''],
     nationalities = [''USA'', ''Canada'', ''Australia'', ''South Africa''],
     universities = [''London'', ''Oxford'', ''Cambridge'', ''Edinburgh''],
     courses = [''History'', ''Medicine'', ''Law'', ''Architecture''],
     student_nationality =
     [(''Carol'', [(''USA'', 0), (''Canada'', 1), (''Australia'', 2), (''South Africa'', 3)]),
      (''Elisa'', [(''USA'', 4), (''Canada'', 5), (''Australia'', 6), (''South Africa'', 7)]),
      (''Oliver'', [(''USA'', 8), (''Canada'', 9), (''Australia'', 10), (''South Africa'', 11)]),
      (''Lucas'', [(''USA'', 12), (''Canada'', 13), (''Australia'', 14), (''South Africa'', 15)])],
     student_university =
     [(''Carol'', [(''London'', 16), (''Oxford'', 17), (''Cambridge'', 18), (''Edinburgh'', 19)]),
      (''Elisa'', [(''London'', 20), (''Oxford'', 21), (''Cambridge'', 22), (''Edinburgh'', 23)]),
      (''Oliver'', [(''London'', 24), (''Oxford'', 25), (''Cambridge'', 26), (''Edinburgh'', 27)]),
      (''Lucas'', [(''London'', 28), (''Oxford'', 29), (''Cambridge'', 30), (''Edinburgh'', 31)])],
     student_course =
     [(''Carol'', [(''History'', 32), (''Medicine'', 33), (''Law'', 34), (''Architecture'', 35)]),
      (''Elisa'', [(''History'', 36), (''Medicine'', 37), (''Law'', 38), (''Architecture'', 39)]),
      (''Oliver'', [(''History'', 40), (''Medicine'', 41), (''Law'', 42), (''Architecture'', 43)]),
      (''Lucas'', [(''History'', 44), (''Medicine'', 45), (''Law'', 46), (''Architecture'', 47)])]\<rparr>"

definition puzzle_names :: "string list" where
  "puzzle_names =
    [''CarolUSA'', ''CarolCanada'', ''CarolAustralia'', ''CarolSouth Africa'',
     ''ElisaUSA'', ''ElisaCanada'', ''ElisaAustralia'', ''ElisaSouth Africa'',
     ''OliverUSA'', ''OliverCanada'', ''OliverAustralia'', ''OliverSouth Africa'',
     ''LucasUSA'', ''LucasCanada'', ''LucasAustralia'', ''LucasSouth Africa'',
     ''CarolLondon'', ''CarolOxford'', ''CarolCambridge'', ''CarolEdinburgh'',
     ''ElisaLondon'', ''ElisaOxford'', ''ElisaCambridge'', ''ElisaEdinburgh'',
     ''OliverLondon'', ''OliverOxford'', ''OliverCambridge'', ''OliverEdinburgh'',
     ''LucasLondon'', ''LucasOxford'', ''LucasCambridge'', ''LucasEdinburgh'',
     ''CarolHistory'', ''CarolMedicine'', ''CarolLaw'', ''CarolArchitecture'',
     ''ElisaHistory'', ''ElisaMedicine'', ''ElisaLaw'', ''ElisaArchitecture'',
     ''OliverHistory'', ''OliverMedicine'', ''OliverLaw'', ''OliverArchitecture'',
     ''LucasHistory'', ''LucasMedicine'', ''LucasLaw'', ''LucasArchitecture'']"

definition explicit_constraints :: "constraint list" where
  "explicit_constraints =
    [\<lparr>expr = Linear [(1, 16), (1, 20), (1, 24), (1, 28)] EQ 1, enforce = []\<rparr>,
     \<lparr>expr = Linear [(1, 18), (1, 23)] EQ 1, enforce = []\<rparr>,
     \<lparr>expr = Linear [(1, 25), (1, 28)] EQ 1, enforce = []\<rparr>,
     \<lparr>expr = BoolAnd [Var 10, Var 44], enforce = [NotVar 40]\<rparr>,
     \<lparr>expr = BoolAnd [Var 14, Var 40], enforce = [NotVar 44]\<rparr>,
     \<lparr>expr = BoolAnd [Var 18, Var 37], enforce = [NotVar 33]\<rparr>,
     \<lparr>expr = BoolAnd [Var 22, Var 33], enforce = [NotVar 37]\<rparr>,
     \<lparr>expr = BoolOr [Var 8, Var 42], enforce = []\<rparr>,
     \<lparr>expr = BoolAnd [NotVar 11], enforce = []\<rparr>,
     \<lparr>expr = BoolOr [Var 32, Var 17], enforce = [Var 1]\<rparr>,
     \<lparr>expr = BoolOr [Var 36, Var 21], enforce = [Var 5]\<rparr>,
     \<lparr>expr = BoolOr [Var 40, Var 25], enforce = [Var 9]\<rparr>,
     \<lparr>expr = BoolOr [Var 44, Var 29], enforce = [Var 13]\<rparr>,
     \<lparr>expr = BoolOr [Var 34, Var 19], enforce = [Var 3]\<rparr>,
     \<lparr>expr = BoolOr [Var 38, Var 23], enforce = [Var 7]\<rparr>,
     \<lparr>expr = BoolOr [Var 42, Var 27], enforce = [Var 11]\<rparr>,
     \<lparr>expr = BoolOr [Var 46, Var 31], enforce = [Var 15]\<rparr>]"

definition implicit_constraints :: "constraint list" where
  "implicit_constraints =
    [\<lparr>expr = Linear [(1, 0), (1, 4), (1, 8), (1, 12)] EQ 1, enforce = []\<rparr>,
     \<lparr>expr = Linear [(1, 1), (1, 5), (1, 9), (1, 13)] EQ 1, enforce = []\<rparr>,
     \<lparr>expr = Linear [(1, 2), (1, 6), (1, 10), (1, 14)] EQ 1, enforce = []\<rparr>,
     \<lparr>expr = Linear [(1, 3), (1, 7), (1, 11), (1, 15)] EQ 1, enforce = []\<rparr>,
     \<lparr>expr = Linear [(1, 16), (1, 20), (1, 24), (1, 28)] EQ 1, enforce = []\<rparr>,
     \<lparr>expr = Linear [(1, 17), (1, 21), (1, 25), (1, 29)] EQ 1, enforce = []\<rparr>,
     \<lparr>expr = Linear [(1, 18), (1, 22), (1, 26), (1, 30)] EQ 1, enforce = []\<rparr>,
     \<lparr>expr = Linear [(1, 19), (1, 23), (1, 27), (1, 31)] EQ 1, enforce = []\<rparr>,
     \<lparr>expr = Linear [(1, 32), (1, 36), (1, 40), (1, 44)] EQ 1, enforce = []\<rparr>,
     \<lparr>expr = Linear [(1, 33), (1, 37), (1, 41), (1, 45)] EQ 1, enforce = []\<rparr>,
     \<lparr>expr = Linear [(1, 34), (1, 38), (1, 42), (1, 46)] EQ 1, enforce = []\<rparr>,
     \<lparr>expr = Linear [(1, 35), (1, 39), (1, 43), (1, 47)] EQ 1, enforce = []\<rparr>,
     \<lparr>expr = Linear [(1, 0), (1, 1), (1, 2), (1, 3)] EQ 1, enforce = []\<rparr>,
     \<lparr>expr = Linear [(1, 16), (1, 17), (1, 18), (1, 19)] EQ 1, enforce = []\<rparr>,
     \<lparr>expr = Linear [(1, 32), (1, 33), (1, 34), (1, 35)] EQ 1, enforce = []\<rparr>,
     \<lparr>expr = Linear [(1, 4), (1, 5), (1, 6), (1, 7)] EQ 1, enforce = []\<rparr>,
     \<lparr>expr = Linear [(1, 20), (1, 21), (1, 22), (1, 23)] EQ 1, enforce = []\<rparr>,
     \<lparr>expr = Linear [(1, 36), (1, 37), (1, 38), (1, 39)] EQ 1, enforce = []\<rparr>,
     \<lparr>expr = Linear [(1, 8), (1, 9), (1, 10), (1, 11)] EQ 1, enforce = []\<rparr>,
     \<lparr>expr = Linear [(1, 24), (1, 25), (1, 26), (1, 27)] EQ 1, enforce = []\<rparr>,
     \<lparr>expr = Linear [(1, 40), (1, 41), (1, 42), (1, 43)] EQ 1, enforce = []\<rparr>,
     \<lparr>expr = Linear [(1, 12), (1, 13), (1, 14), (1, 15)] EQ 1, enforce = []\<rparr>,
     \<lparr>expr = Linear [(1, 28), (1, 29), (1, 30), (1, 31)] EQ 1, enforce = []\<rparr>,
     \<lparr>expr = Linear [(1, 44), (1, 45), (1, 46), (1, 47)] EQ 1, enforce = []\<rparr>]"

definition puzzle_cp_model :: CpModel where
  "puzzle_cp_model =
     \<lparr>names = puzzle_names, constraints = explicit_constraints @ implicit_constraints\<rparr>"

text \<open>
  The students' choices as an assignment: Carol is from South Africa and reads Law in
  Cambridge, Elisa is from Canada and reads Medicine in Oxford, Oliver is from the USA
  and reads History in Edinburgh, Lucas is from Australia and reads Architecture in
  London.
\<close>

definition the_solution :: assignment where
  "the_solution = [False, False, False, True, False, True, False, False, True, False, False, False, False, False, True, False, False, False, True, False, False, True, False, False, False, False, False, True, True, False, False, False, False, False, True, False, False, True, False, False, True, False, False, False, False, False, False, True]"

section \<open>Properties\<close>

text \<open>The variable of a student and an attribute value exists and is true.\<close>

definition assigned :: "assignment \<Rightarrow> predicate \<Rightarrow> string \<Rightarrow> string \<Rightarrow> bool" where
  "assigned a d student x = (case lookup d student x of None \<Rightarrow> False | Some v \<Rightarrow> Value a v)"

text \<open>DEF
  What the claim says the callback prints for a student and a predicate: the first value
  of the domain whose variable is true, and the last value of the domain when none is.
\<close>

definition printed_value :: "assignment \<Rightarrow> predicate \<Rightarrow> string \<Rightarrow> string list \<Rightarrow> string" where
  "printed_value a d student xs =
     (case find (assigned a d student) xs of Some x \<Rightarrow> x | None \<Rightarrow> last xs)"

text \<open>Every student has a variable for every value of the domain.\<close>

definition keys_present :: "predicate \<Rightarrow> string list \<Rightarrow> string list \<Rightarrow> bool" where
  "keys_present d studs xs = list_all (\<lambda>s. list_all (\<lambda>x. lookup d s x \<noteq> None) xs) studs"

definition printed_row :: "assignment \<Rightarrow> 'z puzzle_scheme \<Rightarrow> string \<Rightarrow> string list" where
  "printed_row a sp s =
     [s, printed_value a (student_nationality sp) s (nationalities sp),
         printed_value a (student_university sp) s (universities sp),
         printed_value a (student_course sp) s (courses sp)]"

text \<open>The constraints a part of the encoder appended: those of \<open>m'\<close> that \<open>m\<close> did not have.\<close>

definition added :: "CpModel \<Rightarrow> CpModel \<Rightarrow> constraint list" where
  "added m m' = drop (length (constraints m)) (constraints m')"

definition append_constraints :: "constraint list \<Rightarrow> CpModel \<Rightarrow> CpModel" where
  "append_constraints cs m = m\<lparr>constraints := constraints m @ cs\<rparr>"

text \<open>A project is taken on: its variable exists and is true.\<close>

definition taken_on :: "assignment \<Rightarrow> var list \<Rightarrow> nat \<Rightarrow> bool" where
  "taken_on a vp p = (case nth_opt vp p of None \<Rightarrow> False | Some v \<Rightarrow> Value a v)"

text \<open>The edges of the Dependencies sheet: project and direct dependency.\<close>

definition dependency_edges :: "'a option DataFrame \<Rightarrow> (nat \<times> nat) list" where
  "dependency_edges dependencies =
     [(p, d). p \<leftarrow> [0..<len dependencies], d \<leftarrow> project_dependencies dependencies p]"

text \<open>DEF
  A small workbook for the examples: three projects over two months, two contractors,
  two jobs. Project P0 depends on P1 and P1 on P2; Bob has no quote for testing.
\<close>

definition example_projects :: "string option DataFrame" where
  "example_projects =
     \<lparr>index = [''P0'', ''P1'', ''P2''], columns = [''M1'', ''M2''],
      cells = [[Some ''Dev'', Some ''Test''], [Some ''Dev'', None], [None, Some ''Test'']]\<rparr>"

definition example_quotes :: "rat option DataFrame" where
  "example_quotes =
     \<lparr>index = [''Ann'', ''Bob''], columns = [''Dev'', ''Test''],
      cells = [[Some 100, Some 80], [Some 120, None]]\<rparr>"

definition example_dependencies :: "string option DataFrame" where
  "example_dependencies =
     \<lparr>index = [''P0'', ''P1'', ''P2''], columns = [''P0'', ''P1'', ''P2''],
      cells = [[None, Some ''x'', None], [None, None, Some ''x''], [None, None, None]]\<rparr>"

definition example_value :: "rat DataFrame" where
  "example_value =
     \<lparr>index = [''P0'', ''P1'', ''P2''], columns = [''Value''],
      cells = [[3000], [500], [400]]\<rparr>"

definition example_workbook :: workbook where
  "example_workbook =
     \<lparr>sheet_Projects = Some example_projects, sheet_Quotes = Some example_quotes,
      sheet_Dependencies = Some example_dependencies, sheet_Value = Some example_value\<rparr>"

definition example_plan :: "plan_row list" where
  "example_plan =
     [\<lparr>Contractor = 0, Job = 0, Project = 0, Month = 0, Quote = 100\<rparr>,
      \<lparr>Contractor = 0, Job = 0, Project = 1, Month = 0, Quote = 100\<rparr>,
      \<lparr>Contractor = 0, Job = 1, Project = 0, Month = 1, Quote = 80\<rparr>,
      \<lparr>Contractor = 0, Job = 1, Project = 2, Month = 1, Quote = 80\<rparr>,
      \<lparr>Contractor = 1, Job = 0, Project = 0, Month = 0, Quote = 120\<rparr>,
      \<lparr>Contractor = 1, Job = 0, Project = 1, Month = 0, Quote = 120\<rparr>]"

definition example_var_hiring :: "(key \<times> var) list" where
  "example_var_hiring =
     [((0, 0, 0, 0), 3), ((0, 0, 1, 0), 4), ((0, 1, 0, 1), 5),
      ((0, 1, 2, 1), 6), ((1, 0, 0, 0), 7), ((1, 0, 1, 0), 8)]"

definition example_names :: "string list" where
  "example_names =
     [''p_0'', ''p_1'', ''p_2'', ''h_0_0_0_0'', ''h_0_0_1_0'', ''h_0_1_0_1'',
      ''h_0_1_2_1'', ''h_1_0_0_0'', ''h_1_0_1_0'']"

text \<open>DEF
  All three projects are taken on; Ann develops P0 and tests it, Bob develops P1.
\<close>

definition example_assignment :: assignment where
  "example_assignment = [True, True, True, True, False, True, False, False, True]"

definition example_constraints :: "constraint list" where
  "example_constraints =
     [\<lparr>expr = Linear [(1, 3), (1, 4)] LE 1, enforce = []\<rparr>,
      \<lparr>expr = Linear [(1, 5), (1, 6)] LE 1, enforce = []\<rparr>,
      \<lparr>expr = Linear [(1, 7), (1, 8)] LE 1, enforce = []\<rparr>,
      \<lparr>expr = Linear [(1, 3), (1, 7)] EQ 1, enforce = [Var 0]\<rparr>,
      \<lparr>expr = Linear [(1, 4), (1, 8)] EQ 1, enforce = [Var 1]\<rparr>,
      \<lparr>expr = Linear [(1, 3), (1, 5), (1, 7)] EQ 0, enforce = [NotVar 0]\<rparr>,
      \<lparr>expr = Linear [(1, 4), (1, 8)] EQ 0, enforce = [NotVar 1]\<rparr>,
      \<lparr>expr = Linear [(1, 6)] EQ 0, enforce = [NotVar 2]\<rparr>,
      \<lparr>expr = BoolAnd [Var 1], enforce = [Var 0]\<rparr>,
      \<lparr>expr = BoolAnd [Var 2], enforce = [Var 1]\<rparr>,
      \<lparr>expr = Linear [(3000, 0), (500, 1), (400, 2), (- 100, 3), (- 100, 4), (- 80, 5),
                       (- 80, 6), (- 120, 7), (- 120, 8)] GE 2500, enforce = []\<rparr>]"

text \<open>What part C.1 adds for one contractor and one month.\<close>

definition C1_month_constraints ::
  "plan_row list \<Rightarrow> (key \<times> var) list \<Rightarrow> nat \<Rightarrow> nat \<Rightarrow> constraint list option" where
  "C1_month_constraints plan vh c mo =
     (if length (filter (\<lambda>r. Contractor r = c \<and> Month r = mo) plan) > 1
      then map_option (\<lambda>e. [\<lparr>expr = Linear e LE 1, enforce = []\<rparr>])
             (hiring_sum vh (filter (\<lambda>r. Contractor r = c \<and> Month r = mo) plan))
      else Some [])"

section \<open>The logic puzzle: evaluation of the builder\<close>

lemma oap_new_model:
  "objects_attributes_predicates new_model = (puzzle_variables, \<lparr>names = puzzle_names, constraints = []\<rparr>)"
  by (simp add: objects_attributes_predicates_def NewBoolVar_def new_model_def puzzle_variables_def puzzle_names_def)

lemma explicit_eval:
  "add_explicit_constraints (students puzzle_variables) (student_nationality puzzle_variables)
     (student_university puzzle_variables) (student_course puzzle_variables) m
   = Some (m\<lparr>constraints := constraints m @ explicit_constraints\<rparr>)"
  by (simp add: add_explicit_constraints_def puzzle_variables_def lookup_def
      Add_def AddBoolAnd_def AddBoolOr_def add_constraint_def sum_vars_def explicit_constraints_def)

lemma implicit_eval:
  "add_implicit_constraints (students puzzle_variables) (nationalities puzzle_variables)
     (universities puzzle_variables) (courses puzzle_variables) (student_nationality puzzle_variables)
     (student_university puzzle_variables) (student_course puzzle_variables) m
   = Some (m\<lparr>constraints := constraints m @ implicit_constraints\<rparr>)"
  by (simp add: add_implicit_constraints_def puzzle_variables_def lookup_def
      Add_def add_constraint_def sum_vars_def implicit_constraints_def)

lemma puzzle_model_eval: "puzzle_model = Some (puzzle_variables, puzzle_cp_model)"
  by (simp add: puzzle_model_def oap_new_model explicit_eval implicit_eval puzzle_cp_model_def)

section \<open>The implicit constraints make every predicate a bijection\<close>

lemma none_of:
  "(\<Sum>x\<leftarrow>xs. of_bool (P x)) = (0::int) \<longleftrightarrow> (\<forall>x\<in>set xs. \<not> P x)"
proof (induction xs)
  case Nil
  show ?case by simp
next
  case (Cons x xs)
  have "0 \<le> (\<Sum>x\<leftarrow>xs. of_bool (P x) :: int)"
    by (rule sum_list_nonneg) auto
  with Cons show ?case
    by (cases "P x") auto
qed

lemma exactly_one:
  "distinct xs \<Longrightarrow> (\<Sum>x\<leftarrow>xs. of_bool (P x)) = (1::int) \<longleftrightarrow> (\<exists>!x. x \<in> set xs \<and> P x)"
proof (induction xs)
  case Nil
  show ?case by auto
next
  case (Cons x xs)
  show ?case
  proof (cases "P x")
    case True
    with Cons.prems show ?thesis
      by (auto simp: none_of)
  next
    case False
    with Cons show ?thesis
      by auto
  qed
qed

lemma implicit_sums:
  assumes "list_all (holds a) implicit_constraints"
  shows "\<forall>s\<in>set (students puzzle_variables).
           (\<Sum>x\<leftarrow>nationalities puzzle_variables. of_bool (assigned a (student_nationality puzzle_variables) s x)) = (1::int)"
    and "\<forall>x\<in>set (nationalities puzzle_variables).
           (\<Sum>s\<leftarrow>students puzzle_variables. of_bool (assigned a (student_nationality puzzle_variables) s x)) = (1::int)"
    and "\<forall>s\<in>set (students puzzle_variables).
           (\<Sum>x\<leftarrow>universities puzzle_variables. of_bool (assigned a (student_university puzzle_variables) s x)) = (1::int)"
    and "\<forall>x\<in>set (universities puzzle_variables).
           (\<Sum>s\<leftarrow>students puzzle_variables. of_bool (assigned a (student_university puzzle_variables) s x)) = (1::int)"
    and "\<forall>s\<in>set (students puzzle_variables).
           (\<Sum>x\<leftarrow>courses puzzle_variables. of_bool (assigned a (student_course puzzle_variables) s x)) = (1::int)"
    and "\<forall>x\<in>set (courses puzzle_variables).
           (\<Sum>s\<leftarrow>students puzzle_variables. of_bool (assigned a (student_course puzzle_variables) s x)) = (1::int)"
  using assms
  by (simp_all add: implicit_constraints_def holds_def lin_value_def puzzle_variables_def assigned_def lookup_def)

text \<open>
  C2. In every assignment that satisfies the constraints \<open>add_implicit_constraints\<close>
  adds (to the model that holds only the variables), each of the three predicates is a
  bijection between the students and its attribute values: every student has exactly
  one value whose variable is true, and every value has exactly one such student.
\<close>

theorem implicit_bijection:
  assumes build: "objects_attributes_predicates new_model = (pz, m0)"
    and added: "add_implicit_constraints (students pz) (nationalities pz) (universities pz)
                  (courses pz) (student_nationality pz) (student_university pz)
                  (student_course pz) m0 = Some m"
    and sat: "list_all (holds a) (constraints m)"
    and pred: "(d, xs) \<in> {(student_nationality pz, nationalities pz),
                 (student_university pz, universities pz), (student_course pz, courses pz)}"
  shows "(\<forall>s\<in>set (students pz). \<exists>!x. x \<in> set xs \<and> assigned a d s x) \<and>
         (\<forall>x\<in>set xs. \<exists>!s. s \<in> set (students pz) \<and> assigned a d s x)"
proof -
  from build have pz: "pz = puzzle_variables" and m0: "constraints m0 = []"
    by (auto simp: oap_new_model)
  from added have "constraints m = implicit_constraints"
    by (auto simp: pz implicit_eval m0)
  with sat have sums: "list_all (holds a) implicit_constraints"
    by simp
  have dist: "distinct (students pz)" "distinct (nationalities pz)"
    "distinct (universities pz)" "distinct (courses pz)"
    by (simp_all add: pz puzzle_variables_def)
  from pred consider
      "d = student_nationality pz" "xs = nationalities pz"
    | "d = student_university pz" "xs = universities pz"
    | "d = student_course pz" "xs = courses pz"
    by auto
  then show ?thesis
  proof cases
    case 1
    with implicit_sums(1,2) [OF sums] dist show ?thesis
      by (simp add: exactly_one pz)
  next
    case 2
    with implicit_sums(3,4) [OF sums] dist show ?thesis
      by (simp add: exactly_one pz)
  next
    case 3
    with implicit_sums(5,6) [OF sums] dist show ?thesis
      by (simp add: exactly_one pz)
  qed
qed

theorem implicit_bijection_witness:
  "objects_attributes_predicates new_model
     = (puzzle_variables, \<lparr>names = puzzle_names, constraints = []\<rparr>) \<and>
   add_implicit_constraints (students puzzle_variables) (nationalities puzzle_variables)
     (universities puzzle_variables) (courses puzzle_variables)
     (student_nationality puzzle_variables) (student_university puzzle_variables)
     (student_course puzzle_variables) \<lparr>names = puzzle_names, constraints = []\<rparr>
     = Some \<lparr>names = puzzle_names, constraints = implicit_constraints\<rparr> \<and>
   list_all (holds the_solution) implicit_constraints \<and>
   (\<exists>!x. x \<in> set (courses puzzle_variables) \<and>
         assigned the_solution (student_course puzzle_variables) ''Oliver'' x) \<and>
   (\<exists>!s. s \<in> set (students puzzle_variables) \<and>
         assigned the_solution (student_course puzzle_variables) s ''History'')"
proof -
  have oliver: "''Oliver'' \<in> set (students puzzle_variables)"
    and history: "''History'' \<in> set (courses puzzle_variables)"
    by (simp_all add: puzzle_variables_def)
  have added: "add_implicit_constraints (students puzzle_variables)
      (nationalities puzzle_variables) (universities puzzle_variables)
      (courses puzzle_variables) (student_nationality puzzle_variables)
      (student_university puzzle_variables) (student_course puzzle_variables)
      \<lparr>names = puzzle_names, constraints = []\<rparr>
      = Some \<lparr>names = puzzle_names, constraints = implicit_constraints\<rparr>"
    by (simp add: implicit_eval)
  have sat: "list_all (holds the_solution) implicit_constraints"
    by (simp add: the_solution_def implicit_constraints_def holds_def lin_value_def Value_def)
  have "(student_course puzzle_variables, courses puzzle_variables)
          \<in> {(student_nationality puzzle_variables, nationalities puzzle_variables),
              (student_university puzzle_variables, universities puzzle_variables),
              (student_course puzzle_variables, courses puzzle_variables)}"
    by simp
  from implicit_bijection [OF oap_new_model added _ this, of the_solution] sat
  have "(\<forall>s\<in>set (students puzzle_variables).
           \<exists>!x. x \<in> set (courses puzzle_variables) \<and>
                 assigned the_solution (student_course puzzle_variables) s x) \<and>
        (\<forall>x\<in>set (courses puzzle_variables).
           \<exists>!s. s \<in> set (students puzzle_variables) \<and>
                 assigned the_solution (student_course puzzle_variables) s x)"
    by simp
  with oliver history sat oap_new_model added show ?thesis
    by blast
qed

section \<open>The puzzle has exactly one solution\<close>

lemma one_of_four:
  "(of_bool p + (of_bool q + (of_bool r + of_bool s)) = (1::int)) =
   ((p \<and> \<not> q \<and> \<not> r \<and> \<not> s) \<or> (\<not> p \<and> q \<and> \<not> r \<and> \<not> s) \<or> (\<not> p \<and> \<not> q \<and> r \<and> \<not> s) \<or> (\<not> p \<and> \<not> q \<and> \<not> r \<and> s))"
  by (cases p; cases q; cases r; cases s; simp)

lemma one_of_two:
  "(of_bool p + of_bool q = (1::int)) = (p \<noteq> q)"
  by (cases p; cases q; simp)

lemma forced:
  assumes "list_all (holds a) (explicit_constraints @ implicit_constraints)"
  shows "\<not> a ! 0 \<and> \<not> a ! 1 \<and> \<not> a ! 2 \<and> a ! 3 \<and> \<not> a ! 4 \<and> a ! 5 \<and> \<not> a ! 6 \<and> \<not> a ! 7 \<and> a ! 8 \<and> \<not> a ! 9 \<and> \<not> a ! 10 \<and> \<not> a ! 11 \<and> \<not> a ! 12 \<and> \<not> a ! 13 \<and> a ! 14 \<and> \<not> a ! 15 \<and> \<not> a ! 16 \<and> \<not> a ! 17 \<and> a ! 18 \<and> \<not> a ! 19 \<and> \<not> a ! 20 \<and> a ! 21 \<and> \<not> a ! 22 \<and> \<not> a ! 23 \<and> \<not> a ! 24 \<and> \<not> a ! 25 \<and> \<not> a ! 26 \<and> a ! 27 \<and> a ! 28 \<and> \<not> a ! 29 \<and> \<not> a ! 30 \<and> \<not> a ! 31 \<and> \<not> a ! 32 \<and> \<not> a ! 33 \<and> a ! 34 \<and> \<not> a ! 35 \<and> \<not> a ! 36 \<and> a ! 37 \<and> \<not> a ! 38 \<and> \<not> a ! 39 \<and> a ! 40 \<and> \<not> a ! 41 \<and> \<not> a ! 42 \<and> \<not> a ! 43 \<and> \<not> a ! 44 \<and> \<not> a ! 45 \<and> \<not> a ! 46 \<and> a ! 47"
  using assms
  apply (simp add: explicit_constraints_def implicit_constraints_def holds_def lin_value_def Value_def one_of_four one_of_two)
  apply sat
  done

lemma below_48:
  fixes v :: var
  shows "v < 48 \<Longrightarrow>
     v = 0 \<or> v = 1 \<or> v = 2 \<or> v = 3 \<or> v = 4 \<or> v = 5 \<or> v = 6 \<or>
     v = 7 \<or> v = 8 \<or> v = 9 \<or> v = 10 \<or> v = 11 \<or> v = 12 \<or> v = 13
     \<or> v = 14 \<or> v = 15 \<or> v = 16 \<or> v = 17 \<or> v = 18 \<or> v = 19 \<or>
     v = 20 \<or> v = 21 \<or> v = 22 \<or> v = 23 \<or> v = 24 \<or> v = 25 \<or> v = 26
     \<or> v = 27 \<or> v = 28 \<or> v = 29 \<or> v = 30 \<or> v = 31 \<or> v = 32 \<or>
     v = 33 \<or> v = 34 \<or> v = 35 \<or> v = 36 \<or> v = 37 \<or> v = 38 \<or> v = 39
     \<or> v = 40 \<or> v = 41 \<or> v = 42 \<or> v = 43 \<or> v = 44 \<or> v = 45 \<or>
     v = 46 \<or> v = 47"
  by arith

lemma eq_the_solution:
  assumes len: "length a = 48"
    and vals: "\<not> a ! 0 \<and> \<not> a ! 1 \<and> \<not> a ! 2 \<and> a ! 3 \<and> \<not> a ! 4 \<and> a ! 5 \<and> \<not> a ! 6 \<and> \<not> a ! 7 \<and> a ! 8 \<and> \<not> a ! 9 \<and> \<not> a ! 10 \<and> \<not> a ! 11 \<and> \<not> a ! 12 \<and> \<not> a ! 13 \<and> a ! 14 \<and> \<not> a ! 15 \<and> \<not> a ! 16 \<and> \<not> a ! 17 \<and> a ! 18 \<and> \<not> a ! 19 \<and> \<not> a ! 20 \<and> a ! 21 \<and> \<not> a ! 22 \<and> \<not> a ! 23 \<and> \<not> a ! 24 \<and> \<not> a ! 25 \<and> \<not> a ! 26 \<and> a ! 27 \<and> a ! 28 \<and> \<not> a ! 29 \<and> \<not> a ! 30 \<and> \<not> a ! 31 \<and> \<not> a ! 32 \<and> \<not> a ! 33 \<and> a ! 34 \<and> \<not> a ! 35 \<and> \<not> a ! 36 \<and> a ! 37 \<and> \<not> a ! 38 \<and> \<not> a ! 39 \<and> a ! 40 \<and> \<not> a ! 41 \<and> \<not> a ! 42 \<and> \<not> a ! 43 \<and> \<not> a ! 44 \<and> \<not> a ! 45 \<and> \<not> a ! 46 \<and> a ! 47"
  shows "a = the_solution"
proof (rule nth_equalityI)
  show "length a = length the_solution"
    by (simp add: len the_solution_def)
next
  fix i
  assume "i < length a"
  then have "i < 48" by (simp add: len)
  from below_48 [OF this] vals show "a ! i = the_solution ! i"
    by (elim disjE) (simp_all add: the_solution_def)
qed

lemma the_solution_ok: "solution puzzle_cp_model the_solution"
  by (simp add: puzzle_cp_model_def solution_def puzzle_names_def the_solution_def explicit_constraints_def implicit_constraints_def holds_def lin_value_def Value_def)

lemma solution_iff:
  "solution puzzle_cp_model a \<longleftrightarrow> a = the_solution"
proof
  assume s: "solution puzzle_cp_model a"
  then have "length a = 48" by (simp add: solution_def puzzle_names_def puzzle_cp_model_def)
  moreover from s have "list_all (holds a) (explicit_constraints @ implicit_constraints)" by (simp add: solution_def puzzle_cp_model_def)
  ultimately show "a = the_solution" by (intro eq_the_solution forced)
next
  assume "a = the_solution"
  then show "solution puzzle_cp_model a"
    by (simp add: the_solution_ok)
qed

lemma the_solution_oliver:
  "assigned the_solution (student_nationality puzzle_variables) ''Oliver'' ''USA''"
  "assigned the_solution (student_university puzzle_variables) ''Oliver'' ''Edinburgh''"
  "assigned the_solution (student_course puzzle_variables) ''Oliver'' ''History''"
  "\<not> assigned the_solution (student_nationality puzzle_variables) ''Oliver'' ''Australia''"
  "\<not> assigned the_solution (student_course puzzle_variables) ''Oliver'' ''Law''"
  by (simp_all add: assigned_def lookup_def puzzle_variables_def the_solution_def Value_def)

text \<open>
  C1, as the code has it. The model built by \<open>objects_attributes_predicates\<close>,
  \<open>add_explicit_constraints\<close> and \<open>add_implicit_constraints\<close> has exactly one solution
  over its 48 variables, and in it Oliver is from the USA, goes to Edinburgh and
  studies History.
\<close>

theorem puzzle_unique_solution:
  assumes "puzzle_model = Some (pz, m)"
  shows "(\<exists>!a. solution m a) \<and>
         (\<forall>a. solution m a \<longrightarrow>
            assigned a (student_nationality pz) ''Oliver'' ''USA'' \<and>
            assigned a (student_university pz) ''Oliver'' ''Edinburgh'' \<and>
            assigned a (student_course pz) ''Oliver'' ''History'')"
proof -
  from assms have pz: "pz = puzzle_variables" and m: "m = puzzle_cp_model"
    by (simp_all add: puzzle_model_eval)
  show ?thesis
    unfolding pz m by (simp add: solution_iff the_solution_oliver)
qed

theorem puzzle_unique_solution_witness:
  "puzzle_model = Some (puzzle_variables, puzzle_cp_model) \<and>
   solution puzzle_cp_model the_solution \<and>
   assigned the_solution (student_nationality puzzle_variables) ''Oliver'' ''USA'' \<and>
   assigned the_solution (student_university puzzle_variables) ''Oliver'' ''Edinburgh'' \<and>
   assigned the_solution (student_course puzzle_variables) ''Oliver'' ''History''"
  using puzzle_unique_solution [OF puzzle_model_eval] the_solution_ok puzzle_model_eval
  by blast

text \<open>
  The solution of the model does not make Oliver Australian or a student of Law: both
  variables are false in it.
\<close>

theorem oliver_australia_law_counterexample:
  "puzzle_model = Some (puzzle_variables, puzzle_cp_model) \<and>
   solution puzzle_cp_model the_solution \<and>
   \<not> assigned the_solution (student_nationality puzzle_variables) ''Oliver'' ''Australia'' \<and>
   \<not> assigned the_solution (student_course puzzle_variables) ''Oliver'' ''Law''"
  by (simp add: puzzle_model_eval the_solution_ok the_solution_oliver)

section \<open>What the puzzle's callback prints\<close>

lemma first_true_printed:
  assumes "xs \<noteq> []" and "list_all (\<lambda>x. lookup d s x \<noteq> None) xs"
  shows "first_true a d s xs cur = Some (Some (printed_value a d s xs))"
  using assms
proof (induction xs arbitrary: cur)
  case Nil
  then show ?case by simp
next
  case (Cons x xs)
  then obtain v where v: "lookup d s x = Some v" by auto
  show ?case
  proof (cases "Value a v")
    case True
    with v show ?thesis by (simp add: printed_value_def assigned_def)
  next
    case False
    show ?thesis
    proof (cases "xs = []")
      case True
      with v False show ?thesis by (simp add: printed_value_def assigned_def)
    next
      case ne: False
      with Cons.IH [of "Some x"] Cons.prems
      have "first_true a d s xs (Some x) = Some (Some (printed_value a d s xs))"
        by simp
      with v False ne show ?thesis
        by (simp add: printed_value_def assigned_def split: option.splits)
    qed
  qed
qed

lemma rows_loop_printed:
  assumes "nationalities sp \<noteq> []" "universities sp \<noteq> []" "courses sp \<noteq> []"
    and "keys_present (student_nationality sp) studs (nationalities sp)"
    and "keys_present (student_university sp) studs (universities sp)"
    and "keys_present (student_course sp) studs (courses sp)"
  shows "rows_loop a sp studs locals rows = Some (rows @ map (printed_row a sp) studs)"
  using assms(4-)
proof (induction studs arbitrary: locals rows)
  case Nil
  show ?case by simp
next
  case (Cons s studs)
  obtain n0 u0 c0 where l: "locals = (n0, u0, c0)" by (cases locals) auto
  from Cons.prems assms(1-3) show ?case
    by (simp add: l keys_present_def first_true_printed Cons.IH printed_row_def)
qed

lemma puzzle_keys:
  "keys_present (student_nationality puzzle_variables) (students puzzle_variables) (nationalities puzzle_variables)"
  "keys_present (student_university puzzle_variables) (students puzzle_variables) (universities puzzle_variables)"
  "keys_present (student_course puzzle_variables) (students puzzle_variables) (courses puzzle_variables)"
  by (simp_all add: keys_present_def puzzle_variables_def lookup_def)

text \<open>
  C10. For the printer \<open>solve\<close> builds, whatever the assignment and the solution count
  so far, the callback raises nothing and prints one row per student: the student and,
  for each predicate, the first value in domain order whose variable is true, or the
  last value of the domain when no variable of the student is true.
\<close>

theorem callback_prints_first_true_or_last:
  assumes "objects_attributes_predicates new_model = (pz, m)"
  shows "map_option snd (OnSolutionCallback a (SolutionPrinter_init pz\<lparr>n_solutions := n\<rparr>)) =
           Some [[Str (''Feasible solution #'' @ str_nat (n + 1))],
                 [Str (replicate 20 CHR ''*'')],
                 [Frame (map (\<lambda>s. [s, printed_value a (student_nationality pz) s (nationalities pz),
                                        printed_value a (student_university pz) s (universities pz),
                                        printed_value a (student_course pz) s (courses pz)])
                           (students pz))],
                 [Str (replicate 48 CHR ''='')]]"
proof -
  from assms have pz: "pz = puzzle_variables" by (auto simp: oap_new_model)
  let ?sp = "SolutionPrinter_init pz\<lparr>n_solutions := n\<rparr>"
  have "rows_loop a ?sp (students ?sp) (None, None, None) [] = Some ([] @ map (printed_row a ?sp) (students ?sp))"
    by (rule rows_loop_printed) (simp_all add: SolutionPrinter_init_def pz puzzle_keys, simp_all add: puzzle_variables_def)
  then show ?thesis
    by (simp add: OnSolutionCallback_def printed_row_def SolutionPrinter_init_def)
qed

theorem callback_prints_first_true_or_last_witness:
  "objects_attributes_predicates new_model = (puzzle_variables, \<lparr>names = puzzle_names, constraints = []\<rparr>) \<and>
   map_option snd (OnSolutionCallback (replicate 48 False) (SolutionPrinter_init puzzle_variables\<lparr>n_solutions := 0\<rparr>)) =
     Some [[Str ''Feasible solution #1''],
           [Str (replicate 20 CHR ''*'')],
           [Frame [[''Carol'', ''South Africa'', ''Edinburgh'', ''Architecture''],
                   [''Elisa'', ''South Africa'', ''Edinburgh'', ''Architecture''],
                   [''Oliver'', ''South Africa'', ''Edinburgh'', ''Architecture''],
                   [''Lucas'', ''South Africa'', ''Edinburgh'', ''Architecture'']]],
           [Str (replicate 48 CHR ''='')]]"
proof -
  have v: "assigned (replicate 48 False) d s x = False" if "case lookup d s x of None \<Rightarrow> True | Some v \<Rightarrow> v < 48" for d s x
    using that by (auto simp: assigned_def Value_def split: option.splits)
  have "printed_value (replicate 48 False) (student_nationality puzzle_variables) s (nationalities puzzle_variables) = ''South Africa''"
       "printed_value (replicate 48 False) (student_university puzzle_variables) s (universities puzzle_variables) = ''Edinburgh''"
       "printed_value (replicate 48 False) (student_course puzzle_variables) s (courses puzzle_variables) = ''Architecture''"
    if "s \<in> set (students puzzle_variables)" for s
    using that by (auto simp: printed_value_def v puzzle_variables_def lookup_def)
  with callback_prints_first_true_or_last [OF oap_new_model, of "replicate 48 False" 0] oap_new_model
  show ?thesis
    by (simp add: puzzle_variables_def str_nat.simps)
qed

section \<open>Loops that append constraints\<close>

lemma added_append [simp]: "added m (append_constraints cs m) = cs"
  by (simp add: added_def append_constraints_def)

lemma append_constraints_twice:
  "append_constraints ds (append_constraints cs m) = append_constraints (cs @ ds) m"
  by (simp add: append_constraints_def)

lemma append_constraints_Nil [simp]: "append_constraints [] m = m"
  by (simp add: append_constraints_def)

lemma concat_member: "xs \<in> set xss \<Longrightarrow> x \<in> set xs \<Longrightarrow> x \<in> set (concat xss)"
  by auto

lemma those_map_member:
  "those (map f xs) = Some ys \<Longrightarrow> x \<in> set xs \<Longrightarrow> \<exists>y. f x = Some y \<and> y \<in> set ys"
  by (induction xs arbitrary: ys) (auto split: option.splits)

lemma those_map_length: "those (map f xs) = Some ys \<Longrightarrow> length ys = length xs"
  by (induction xs arbitrary: ys) (auto split: option.splits)

lemma those_map_nth:
  "those (map f xs) = Some ys \<Longrightarrow> i < length xs \<Longrightarrow> f (xs ! i) = Some (ys ! i)"
proof (induction xs arbitrary: ys i)
  case Nil
  then show ?case by simp
next
  case (Cons x xs)
  then show ?case
    by (cases i) (auto split: option.splits)
qed

lemma those_map_Some:
  "(\<And>x. x \<in> set xs \<Longrightarrow> \<exists>y. f x = Some y) \<Longrightarrow> \<exists>ys. those (map f xs) = Some ys"
proof (induction xs)
  case Nil
  show ?case by simp
next
  case (Cons x xs)
  then obtain y ys where "f x = Some y" "those (map f xs) = Some ys"
    by (metis list.set_intros(1,2))
  then show ?case by simp
qed

lemma for_each_appends:
  assumes "\<And>x m. x \<in> set xs \<Longrightarrow> body x m = map_option (\<lambda>cs. append_constraints cs m) (f x)"
  shows "for_each xs body m
           = map_option (\<lambda>css. append_constraints (concat css) m) (those (map f xs))"
  using assms
proof (induction xs arbitrary: m)
  case Nil
  show ?case by simp
next
  case (Cons x xs)
  show ?case
  proof (cases "f x")
    case None
    with Cons.prems [of x m] show ?thesis by simp
  next
    case (Some cs)
    with Cons.prems [of x m] have "body x m = Some (append_constraints cs m)" by simp
    moreover have "for_each xs body (append_constraints cs m)
        = map_option (\<lambda>css. append_constraints (concat css) (append_constraints cs m))
            (those (map f xs))"
      by (rule Cons.IH) (simp add: Cons.prems)
    ultimately show ?thesis
      using Some by (simp add: append_constraints_twice option.map_comp comp_def)
  qed
qed

section \<open>Dependency closure\<close>

lemma C4_dependency_appends:
  "C4_dependency vp p d m =
     map_option (\<lambda>cs. append_constraints cs m)
       (do { vd \<leftarrow> nth_opt vp d; v \<leftarrow> nth_opt vp p;
             Some [\<lparr>expr = BoolAnd [Var vd], enforce = [Var v]\<rparr>] })"
  by (simp add: C4_dependency_def AddBoolAnd_def add_constraint_def append_constraints_def
      split: Option.bind_splits)

lemma constraints_C4_appends:
  "constraints_C4 dependencies vp m =
     map_option (\<lambda>css. append_constraints (concat css) m)
       (those (map (\<lambda>p. map_option concat (those (map (\<lambda>d.
            do { vd \<leftarrow> nth_opt vp d; v \<leftarrow> nth_opt vp p;
                 Some [\<lparr>expr = BoolAnd [Var vd], enforce = [Var v]\<rparr>] })
          (project_dependencies dependencies p)))) [0..<len dependencies]))"
  unfolding constraints_C4_def
  by (rule for_each_appends)
    (simp add: for_each_appends [OF C4_dependency_appends] option.map_comp comp_def)

lemma C4_edge:
  assumes "constraints_C4 dependencies vp m = Some m'"
    and "(p, d) \<in> set (dependency_edges dependencies)"
  shows "\<exists>vd v. nth_opt vp d = Some vd \<and> nth_opt vp p = Some v \<and>
           \<lparr>expr = BoolAnd [Var vd], enforce = [Var v]\<rparr> \<in> set (added m m')"
proof -
  from assms(2) have p: "p \<in> set [0..<len dependencies]"
    and d: "d \<in> set (project_dependencies dependencies p)"
    by (auto simp: dependency_edges_def)
  from assms(1) obtain css where css: "those (map (\<lambda>p. map_option concat (those (map (\<lambda>d.
            do { vd \<leftarrow> nth_opt vp d; v \<leftarrow> nth_opt vp p;
                 Some [\<lparr>expr = BoolAnd [Var vd], enforce = [Var v]\<rparr>] })
          (project_dependencies dependencies p)))) [0..<len dependencies]) = Some css"
    and m': "m' = append_constraints (concat css) m"
    by (auto simp: constraints_C4_appends)
  from those_map_member [OF css p] obtain cs ds where
    ds: "those (map (\<lambda>d. do { vd \<leftarrow> nth_opt vp d; v \<leftarrow> nth_opt vp p;
                 Some [\<lparr>expr = BoolAnd [Var vd], enforce = [Var v]\<rparr>] })
          (project_dependencies dependencies p)) = Some ds"
    and cs: "cs = concat ds" "cs \<in> set css"
    by auto
  from those_map_member [OF ds d] obtain c where
    c: "do { vd \<leftarrow> nth_opt vp d; v \<leftarrow> nth_opt vp p;
             Some [\<lparr>expr = BoolAnd [Var vd], enforce = [Var v]\<rparr>] } = Some c" "c \<in> set ds"
    by auto
  from c(1) obtain vd v where "nth_opt vp d = Some vd" "nth_opt vp p = Some v"
    "c = [\<lparr>expr = BoolAnd [Var vd], enforce = [Var v]\<rparr>]"
    by (auto split: Option.bind_splits)
  note vs = this
  from c(2) vs(3) have "\<lparr>expr = BoolAnd [Var vd], enforce = [Var v]\<rparr> \<in> set (concat ds)"
    by (intro concat_member [of c]) simp_all
  with cs have "\<lparr>expr = BoolAnd [Var vd], enforce = [Var v]\<rparr> \<in> set (concat css)"
    by (intro concat_member [of cs]) simp_all
  with vs(1,2) show ?thesis
    by (auto simp: m')
qed

text \<open>
  C4. Whenever part C.4 has added its constraints and an assignment satisfies them, a
  project that is taken on has every project taken on that is reachable from it along
  the entries of the Dependencies sheet, through any number of steps.
\<close>

theorem dependency_closure:
  assumes c4: "constraints_C4 dependencies vp m = Some m'"
    and sat: "list_all (holds a) (added m m')"
    and reach: "(p, q) \<in> (set (dependency_edges dependencies))\<^sup>+"
    and taken: "taken_on a vp p"
  shows "taken_on a vp q"
  using reach taken
proof (induction rule: trancl_induct)
  case (base d)
  from C4_edge [OF c4 base(1)] obtain vd v where
    v: "nth_opt vp d = Some vd" "nth_opt vp p = Some v"
    and c: "\<lparr>expr = BoolAnd [Var vd], enforce = [Var v]\<rparr> \<in> set (added m m')"
    by blast
  from sat c have "holds a \<lparr>expr = BoolAnd [Var vd], enforce = [Var v]\<rparr>"
    by (simp add: list_all_iff)
  with base(2) v show ?case
    by (simp add: holds_def taken_on_def)
next
  case (step d e)
  from C4_edge [OF c4 step(2)] obtain vd v where
    v: "nth_opt vp e = Some vd" "nth_opt vp d = Some v"
    and c: "\<lparr>expr = BoolAnd [Var vd], enforce = [Var v]\<rparr> \<in> set (added m m')"
    by blast
  from sat c have "holds a \<lparr>expr = BoolAnd [Var vd], enforce = [Var v]\<rparr>"
    by (simp add: list_all_iff)
  with step v show ?case
    by (simp add: holds_def taken_on_def)
qed

section \<open>The example workbook, evaluated\<close>

lemma example_import:
  "import_data example_workbook =
     Some (example_projects, example_quotes, example_dependencies, example_value, example_plan)"
  by (simp add: import_data_def example_workbook_def stacked_def qualified_jobs_def
      running_month_def len_def iloc_def example_projects_def example_quotes_def
      example_plan_def upt_rec)

lemma example_variables:
  "identify_and_create_variables example_plan example_projects new_model =
     ([0, 1, 2], example_var_hiring, \<lparr>names = example_names, constraints = []\<rparr>)"
  by (simp add: identify_and_create_variables_def len_def example_projects_def example_plan_def
      example_var_hiring_def example_names_def new_model_def NewBoolVar_def key_of_def
      str_nat.simps upt_rec)

section \<open>The decision variables of the planning model\<close>

lemma project_vars_eq:
  "project_vars ps vp m =
     (vp @ [length (names m)..<length (names m) + length ps],
      m\<lparr>names := names m @ map (\<lambda>p. ''p_'' @ str_nat p) ps\<rparr>)"
proof (induction ps arbitrary: vp m)
  case Nil
  show ?case by simp
next
  case (Cons p ps)
  show ?case
    by (simp del: upt_Suc add: NewBoolVar_def Cons.IH upt_conv_Cons)
qed

lemma update_values:
  "snd ` set (AList.update k v al) \<subseteq> insert v (snd ` set al)"
  by (induction al) auto

lemma distinct_update_values:
  "distinct (map snd al) \<Longrightarrow> v \<notin> snd ` set al \<Longrightarrow> distinct (map snd (AList.update k v al))"
proof (induction al)
  case Nil
  show ?case by simp
next
  case (Cons e al)
  from update_values [of k v al] Cons show ?case
    by (auto simp: image_iff)
qed

lemma hiring_vars_dom:
  "hiring_vars rs vh m = (vh', m') \<Longrightarrow> fst ` set vh' = fst ` set vh \<union> key_of ` set rs"
proof (induction rs arbitrary: vh m)
  case Nil
  then show ?case by simp
next
  case (Cons r rs)
  from Cons.prems obtain m2 where
    "hiring_vars rs (AList.update (key_of r) (length (names m)) vh) m2 = (vh', m')"
    by (simp add: NewBoolVar_def)
  from Cons.IH [OF this] show ?case
    by (simp add: AList.dom_update)
qed

lemma hiring_vars_names:
  "hiring_vars rs vh m = (vh', m') \<Longrightarrow>
     length (names m') = length (names m) + length rs \<and> constraints m' = constraints m"
proof (induction rs arbitrary: vh m)
  case Nil
  then show ?case by simp
next
  case (Cons r rs)
  from Cons.prems obtain m2 where
    "hiring_vars rs (AList.update (key_of r) (length (names m)) vh) m2 = (vh', m')"
    and "length (names m2) = Suc (length (names m))" and "constraints m2 = constraints m"
    by (simp add: NewBoolVar_def)
  with Cons.IH [OF this(1)] show ?case
    by simp
qed

lemma hiring_vars_keys_distinct:
  "hiring_vars rs vh m = (vh', m') \<Longrightarrow> distinct (map fst vh) \<Longrightarrow> distinct (map fst vh')"
proof (induction rs arbitrary: vh m)
  case Nil
  then show ?case by simp
next
  case (Cons r rs)
  from Cons.prems(1) obtain m2 where
    run: "hiring_vars rs (AList.update (key_of r) (length (names m)) vh) m2 = (vh', m')"
    by (simp add: NewBoolVar_def)
  from Cons.prems(2) have "distinct (map fst (AList.update (key_of r) (length (names m)) vh))"
    by (rule AList.distinct_update)
  from Cons.IH [OF run this] show ?case .
qed

lemma hiring_vars_fresh:
  assumes "hiring_vars rs vh m = (vh', m')"
    and "distinct (map snd vh)"
    and "\<forall>v\<in>snd ` set vh. n \<le> v \<and> v < length (names m)"
    and "n \<le> length (names m)"
  shows "distinct (map snd vh') \<and> (\<forall>v\<in>snd ` set vh'. n \<le> v \<and> v < length (names m'))"
  using assms
proof (induction rs arbitrary: vh m)
  case Nil
  then show ?case by simp
next
  case (Cons r rs)
  let ?v = "length (names m)"
  let ?vh = "AList.update (key_of r) ?v vh"
  let ?m = "m\<lparr>names := names m @ [''h_'' @ str_nat (Contractor r) @ ''_'' @ str_nat (Job r)
              @ ''_'' @ str_nat (Project r) @ ''_'' @ str_nat (Month r)]\<rparr>"
  from Cons.prems(1) have run: "hiring_vars rs ?vh ?m = (vh', m')"
    by (simp add: NewBoolVar_def)
  from Cons.prems(3) have "?v \<notin> snd ` set vh" by auto
  with Cons.prems(2) have d: "distinct (map snd ?vh)"
    by (rule distinct_update_values)
  have b: "\<forall>v\<in>snd ` set ?vh. n \<le> v \<and> v < length (names ?m)"
  proof
    fix w
    assume "w \<in> snd ` set ?vh"
    with update_values [of "key_of r" ?v vh] have "w = ?v \<or> w \<in> snd ` set vh"
      by blast
    with Cons.prems(3,4) show "n \<le> w \<and> w < length (names ?m)"
      by (auto simp: less_Suc_eq)
  qed
  from Cons.prems(4) have "n \<le> length (names ?m)" by simp
  from Cons.IH [OF run d b this] show ?case .
qed

lemma identify_props:
  assumes "identify_and_create_variables plan prjs m = (vp, vh, m')"
  shows "vp = [length (names m)..<length (names m) + len prjs]"
    and "fst ` set vh = key_of ` set plan"
    and "distinct (map fst vh)"
    and "distinct (map snd vh)"
    and "\<forall>v\<in>snd ` set vh. length (names m) + len prjs \<le> v \<and> v < length (names m')"
    and "length (names m') = length (names m) + len prjs + length plan"
    and "constraints m' = constraints m"
proof -
  let ?m1 = "m\<lparr>names := names m @ map (\<lambda>p. ''p_'' @ str_nat p) [0..<len prjs]\<rparr>"
  from assms have vp: "vp = [length (names m)..<length (names m) + len prjs]"
    and run: "hiring_vars plan [] ?m1 = (vh, m')"
    by (auto simp: identify_and_create_variables_def project_vars_eq split: prod.splits)
  show "vp = [length (names m)..<length (names m) + len prjs]" by (rule vp)
  from hiring_vars_dom [OF run] show "fst ` set vh = key_of ` set plan" by simp
  from hiring_vars_keys_distinct [OF run] show "distinct (map fst vh)" by simp
  from hiring_vars_names [OF run]
  show "length (names m') = length (names m) + len prjs + length plan"
    and "constraints m' = constraints m" by simp_all
  from hiring_vars_fresh [OF run, of "length (names m) + len prjs"]
  show "distinct (map snd vh)"
    and "\<forall>v\<in>snd ` set vh. length (names m) + len prjs \<le> v \<and> v < length (names m')"
    by simp_all
qed

lemma identify_nth_opt:
  assumes "identify_and_create_variables plan prjs m = (vp, vh, m')"
  shows "nth_opt vp p = (if p < len prjs then Some (length (names m) + p) else None)"
  by (simp add: identify_props(1) [OF assms] nth_opt_def)

section \<open>Sums of hiring variables\<close>

lemma those_map_the:
  "those (map f xs) = Some ys \<Longrightarrow> ys = map (\<lambda>x. the (f x)) xs \<and> (\<forall>x\<in>set xs. f x \<noteq> None)"
  by (induction xs arbitrary: ys) (auto split: option.splits)

lemma lin_value_sum_vars: "lin_value a (sum_vars vs) = (\<Sum>v\<leftarrow>vs. of_bool (Value a v))"
  by (simp add: lin_value_def sum_vars_def comp_def)

lemma hiring_sum_value:
  assumes "hiring_sum vh query = Some e"
  shows "lin_value a e = (\<Sum>r\<leftarrow>query. of_bool (Value a (the (map_of vh (key_of r)))))"
    and "\<forall>r\<in>set query. map_of vh (key_of r) \<noteq> None"
proof -
  from assms obtain vs where vs: "those (map (\<lambda>r. map_of vh (key_of r)) query) = Some vs"
    and e: "e = sum_vars vs"
    by (auto simp: hiring_sum_def)
  from those_map_the [OF vs] e
  show "lin_value a e = (\<Sum>r\<leftarrow>query. of_bool (Value a (the (map_of vh (key_of r)))))"
    and "\<forall>r\<in>set query. map_of vh (key_of r) \<noteq> None"
    by (simp_all add: lin_value_sum_vars comp_def)
qed

lemma hiring_sum_defined:
  "(\<And>r. r \<in> set query \<Longrightarrow> map_of vh (key_of r) \<noteq> None) \<Longrightarrow> \<exists>e. hiring_sum vh query = Some e"
  unfolding hiring_sum_def using those_map_Some [of query "\<lambda>r. map_of vh (key_of r)"]
  by fastforce

section \<open>Nobody works on a project that is not taken on\<close>

lemma C3_project_appends:
  "C3_project plan vh vp p m =
     map_option (\<lambda>cs. append_constraints cs m)
       (do { e \<leftarrow> hiring_sum vh (filter (\<lambda>r. Project r = p) plan);
             v \<leftarrow> nth_opt vp p;
             Some [\<lparr>expr = Linear e EQ 0, enforce = [NotVar v]\<rparr>] })"
  by (simp add: C3_project_def Add_def add_constraint_def append_constraints_def
      split: Option.bind_splits)

lemma C3_constraint:
  assumes "constraints_C3 plan prjs vh vp m = Some m'" and "p < len prjs"
  shows "\<exists>e v. hiring_sum vh (filter (\<lambda>r. Project r = p) plan) = Some e \<and>
           nth_opt vp p = Some v \<and>
           \<lparr>expr = Linear e EQ 0, enforce = [NotVar v]\<rparr> \<in> set (added m m')"
proof -
  let ?f = "\<lambda>p. do { e \<leftarrow> hiring_sum vh (filter (\<lambda>r. Project r = p) plan);
                       v \<leftarrow> nth_opt vp p;
                       Some [\<lparr>expr = Linear e EQ 0, enforce = [NotVar v]\<rparr>] }"
  from assms(1) obtain css where css: "those (map ?f [0..<len prjs]) = Some css"
    and m': "m' = append_constraints (concat css) m"
    by (auto simp: constraints_C3_def for_each_appends [OF C3_project_appends])
  from assms(2) have "p \<in> set [0..<len prjs]" by simp
  from those_map_member [OF css this] obtain cs where cs: "?f p = Some cs" "cs \<in> set css"
    by blast
  from cs(1) obtain e v where ev: "hiring_sum vh (filter (\<lambda>r. Project r = p) plan) = Some e"
    "nth_opt vp p = Some v" "cs = [\<lparr>expr = Linear e EQ 0, enforce = [NotVar v]\<rparr>]"
    by (auto split: Option.bind_splits)
  from cs(2) ev(3) have "\<lparr>expr = Linear e EQ 0, enforce = [NotVar v]\<rparr> \<in> set (concat css)"
    by (intro concat_member [of cs]) simp_all
  with ev(1,2) show ?thesis
    by (auto simp: m')
qed

text \<open>
  C9. With the variables of \<open>identify_and_create_variables\<close> and the constraints of part
  C.3, in every assignment that satisfies those constraints a project whose variable is
  false has every hiring variable false whose key names that project.
\<close>

theorem not_taken_on_no_hiring:
  assumes vars: "identify_and_create_variables plan prjs m0 = (vp, vh, m1)"
    and c3: "constraints_C3 plan prjs vh vp m = Some m'"
    and sat: "list_all (holds a) (added m m')"
    and p: "nth_opt vp p = Some v" "\<not> Value a v"
    and k: "map_of vh (c, j, p, mo) = Some h"
  shows "\<not> Value a h"
proof -
  let ?query = "filter (\<lambda>r. Project r = p) plan"
  from p(1) have "p < len prjs"
    by (simp add: identify_nth_opt [OF vars] split: if_splits)
  from C3_constraint [OF c3 this] p(1) obtain e where
    e: "hiring_sum vh ?query = Some e"
    and ct: "\<lparr>expr = Linear e EQ 0, enforce = [NotVar v]\<rparr> \<in> set (added m m')"
    by auto
  from sat ct have "holds a \<lparr>expr = Linear e EQ 0, enforce = [NotVar v]\<rparr>"
    by (simp add: list_all_iff)
  with p(2) have "lin_value a e = 0"
    by (simp add: holds_def)
  then have zero: "\<forall>r\<in>set ?query. \<not> Value a (the (map_of vh (key_of r)))"
    by (simp add: hiring_sum_value(1) [OF e] none_of)
  from k have "(c, j, p, mo) \<in> fst ` set vh"
    by (metis domI dom_map_of_conv_image_fst)
  then obtain r where r: "r \<in> set plan" "key_of r = (c, j, p, mo)"
    by (auto simp: identify_props(2) [OF vars])
  then have "r \<in> set ?query"
    by (simp add: key_of_def)
  with zero r(2) k show ?thesis
    by auto
qed

lemma example_C1:
  "constraints_C1 example_plan example_quotes example_var_hiring m =
     Some (append_constraints (take 3 example_constraints) m)"
  by (simp add: constraints_C1_def C1_month_def example_plan_def example_quotes_def len_def
      example_var_hiring_def hiring_sum_def sum_vars_def key_of_def Add_def add_constraint_def
      append_constraints_def example_constraints_def upt_rec)

lemma example_C3:
  "constraints_C3 example_plan example_projects example_var_hiring [0, 1, 2] m =
     Some (append_constraints (take 3 (drop 5 example_constraints)) m)"
  by (simp add: constraints_C3_def C3_project_def example_plan_def example_projects_def len_def
      example_var_hiring_def hiring_sum_def sum_vars_def key_of_def Add_def add_constraint_def
      append_constraints_def example_constraints_def nth_opt_def upt_rec)

lemma example_C4:
  "constraints_C4 example_dependencies [0, 1, 2] m =
     Some (append_constraints (take 2 (drop 8 example_constraints)) m)"
  by (simp add: constraints_C4_def C4_dependency_def example_dependencies_def len_def iloc_def
      project_dependencies_def AddBoolAnd_def add_constraint_def
      append_constraints_def example_constraints_def nth_opt_def upt_rec)

lemma example_constraints_eval:
  "define_and_implement_constraints example_plan example_projects example_quotes
     example_dependencies example_value example_var_hiring [0, 1, 2] m =
   Some ([(3000, 0), (500, 1), (400, 2)],
         [(100, 3), (100, 4), (80, 5), (80, 6), (120, 7), (120, 8)],
         append_constraints example_constraints m)"
  by (simp add: define_and_implement_constraints_def constraints_C1_def C1_month_def
      constraints_C2_def C2_month_def constraints_C3_def C3_project_def
      constraints_C4_def C4_dependency_def constraints_C5_def revenue_expr_def costs_expr_def
      value_of_def astype_int_def minus_expr_def project_dependencies_def
      example_plan_def example_projects_def example_quotes_def example_dependencies_def
      example_value_def len_def iloc_def
      example_var_hiring_def hiring_sum_def sum_vars_def key_of_def Add_def AddBoolAnd_def
      add_constraint_def append_constraints_def example_constraints_def nth_opt_def upt_rec)

lemma example_holds: "list_all (holds example_assignment) example_constraints"
  by (simp add: example_constraints_def example_assignment_def holds_def lin_value_def Value_def)

theorem dependency_closure_witness:
  "constraints_C4 example_dependencies [0, 1, 2] new_model
     = Some (append_constraints (take 2 (drop 8 example_constraints)) new_model) \<and>
   list_all (holds example_assignment)
     (added new_model (append_constraints (take 2 (drop 8 example_constraints)) new_model)) \<and>
   (0, 2) \<in> (set (dependency_edges example_dependencies))\<^sup>+ \<and>
   taken_on example_assignment [0, 1, 2] 0 \<and>
   taken_on example_assignment [0, 1, 2] 2"
proof -
  have sat: "list_all (holds example_assignment)
     (added new_model (append_constraints (take 2 (drop 8 example_constraints)) new_model))"
    by (simp add: example_constraints_def example_assignment_def holds_def Value_def)
  have "(0, 1) \<in> set (dependency_edges example_dependencies)"
    and "(1, 2) \<in> set (dependency_edges example_dependencies)"
    by (simp_all add: dependency_edges_def project_dependencies_def example_dependencies_def
        len_def iloc_def upt_rec)
  then have reach: "(0, 2) \<in> (set (dependency_edges example_dependencies))\<^sup>+"
    by (rule trancl_into_trancl [OF r_into_trancl])
  have taken: "taken_on example_assignment [0, 1, 2] 0"
    by (simp add: taken_on_def nth_opt_def example_assignment_def Value_def)
  from dependency_closure [OF example_C4 sat reach taken] example_C4 sat reach taken
  show ?thesis by simp
qed

theorem not_taken_on_no_hiring_witness:
  "identify_and_create_variables example_plan example_projects new_model
     = ([0, 1, 2], example_var_hiring, \<lparr>names = example_names, constraints = []\<rparr>) \<and>
   constraints_C3 example_plan example_projects example_var_hiring [0, 1, 2] new_model
     = Some (append_constraints (take 3 (drop 5 example_constraints)) new_model) \<and>
   list_all (holds [False, False, False, False, False, False, False, False, False])
     (added new_model (append_constraints (take 3 (drop 5 example_constraints)) new_model)) \<and>
   nth_opt [0, 1, 2] 2 = Some (2::var) \<and>
   \<not> Value [False, False, False, False, False, False, False, False, False] 2 \<and>
   map_of example_var_hiring (0, 1, 2, 1) = Some 6 \<and>
   \<not> Value [False, False, False, False, False, False, False, False, False] 6"
proof -
  let ?a = "[False, False, False, False, False, False, False, False, False]"
  have sat: "list_all (holds ?a)
     (added new_model (append_constraints (take 3 (drop 5 example_constraints)) new_model))"
    by (simp add: example_constraints_def holds_def Value_def lin_value_def)
  have p: "nth_opt [0, 1, 2] 2 = Some (2::nat)" "\<not> Value ?a 2"
    by (simp_all add: nth_opt_def Value_def)
  have k: "map_of example_var_hiring (0, 1, 2, 1) = Some 6"
    by (simp add: example_var_hiring_def)
  from not_taken_on_no_hiring [OF example_variables example_C3 sat p k]
    example_variables example_C3 sat p k
  show ?thesis by simp
qed

section \<open>A contractor works on at most one project a month\<close>

lemma set_unique [simp]: "set (unique xs) = set xs"
  by (induction xs rule: unique.induct) auto

lemma sum_list_distinct_subset:
  fixes g :: "'a \<Rightarrow> int"
  assumes "distinct ks" and "set ks \<subseteq> set ys" and "\<And>y. 0 \<le> g y"
  shows "sum_list (map g ks) \<le> sum_list (map g ys)"
  using assms(1,2)
proof (induction ks arbitrary: ys)
  case Nil
  have "0 \<le> sum_list (map g ys)"
    by (rule sum_list_nonneg) (use assms(3) in auto)
  then show ?case by simp
next
  case (Cons k ks)
  then have k: "k \<in> set ys" and d: "distinct ks" and nk: "k \<notin> set ks"
    and sub0: "set ks \<subseteq> set ys"
    by auto
  have sub: "set ks \<subseteq> set (remove1 k ys)"
  proof
    fix x
    assume x: "x \<in> set ks"
    with nk have "x \<noteq> k" by auto
    with x sub0 show "x \<in> set (remove1 k ys)"
      by (auto simp: in_set_remove1)
  qed
  from Cons.IH [OF d sub] sum_list_map_remove1 [OF k, of g] show ?case
    by simp
qed

lemma sum_of_bool_le_length: "(\<Sum>x\<leftarrow>xs. of_bool (P x)) \<le> int (length xs)"
  by (induction xs) auto

lemma C1_month_appends:
  "C1_month plan vh c mo m =
     map_option (\<lambda>cs. append_constraints cs m) (C1_month_constraints plan vh c mo)"
  by (simp add: C1_month_def C1_month_constraints_def Add_def add_constraint_def
      append_constraints_def Let_def split: Option.bind_splits)

lemma constraints_C1_appends:
  "constraints_C1 plan quotes vh m =
     map_option (\<lambda>css. append_constraints (concat css) m)
       (those (map (\<lambda>c. map_option concat (those (map (C1_month_constraints plan vh c)
          (unique (map Month (filter (\<lambda>r. Contractor r = c) plan))))))
        [0..<len quotes]))"
  unfolding constraints_C1_def
  by (rule for_each_appends)
    (simp add: for_each_appends [OF C1_month_appends] option.map_comp comp_def)

lemma C1_constraint:
  assumes c1: "constraints_C1 plan quotes vh m = Some m'"
    and c: "c < len quotes"
    and long: "length (filter (\<lambda>r. Contractor r = c \<and> Month r = mo) plan) > 1"
  shows "\<exists>e. hiring_sum vh (filter (\<lambda>r. Contractor r = c \<and> Month r = mo) plan) = Some e \<and>
           \<lparr>expr = Linear e LE 1, enforce = []\<rparr> \<in> set (added m m')"
proof -
  let ?months = "unique (map Month (filter (\<lambda>r. Contractor r = c) plan))"
  from c1 obtain css where
    css: "those (map (\<lambda>c. map_option concat (those (map (C1_month_constraints plan vh c)
          (unique (map Month (filter (\<lambda>r. Contractor r = c) plan))))))
        [0..<len quotes]) = Some css"
    and m': "m' = append_constraints (concat css) m"
    by (auto simp: constraints_C1_appends)
  from c have "c \<in> set [0..<len quotes]" by simp
  from those_map_member [OF css this] obtain ds where
    ds: "those (map (C1_month_constraints plan vh c) ?months) = Some ds"
    and dsin: "concat ds \<in> set css"
    by auto
  from long obtain r rs where "filter (\<lambda>r. Contractor r = c \<and> Month r = mo) plan = r # rs"
    by (cases "filter (\<lambda>r. Contractor r = c \<and> Month r = mo) plan") simp_all
  then have "r \<in> set (filter (\<lambda>r. Contractor r = c \<and> Month r = mo) plan)"
    by simp
  then have "mo \<in> set ?months"
    by force
  from those_map_member [OF ds this] obtain cs where
    cs: "C1_month_constraints plan vh c mo = Some cs" and csin: "cs \<in> set ds"
    by blast
  from cs long have "map_option (\<lambda>e. [\<lparr>expr = Linear e LE 1, enforce = []\<rparr>])
      (hiring_sum vh (filter (\<lambda>r. Contractor r = c \<and> Month r = mo) plan)) = Some cs"
    by (simp only: C1_month_constraints_def if_True)
  then obtain e where
    e: "hiring_sum vh (filter (\<lambda>r. Contractor r = c \<and> Month r = mo) plan) = Some e"
    and cse: "cs = [\<lparr>expr = Linear e LE 1, enforce = []\<rparr>]"
    by (cases "hiring_sum vh (filter (\<lambda>r. Contractor r = c \<and> Month r = mo) plan)") auto
  from csin cse have inner: "\<lparr>expr = Linear e LE 1, enforce = []\<rparr> \<in> set (concat ds)"
    by (intro concat_member [of cs]) simp_all
  from concat_member [OF dsin inner] e show ?thesis
    by (auto simp: m')
qed

text \<open>
  C8. With the variables of \<open>identify_and_create_variables\<close> and the constraints of part
  C.1, in every assignment that satisfies those constraints and for every contractor of
  the Quotes sheet and every month, the hiring variables whose key has that contractor
  and that month sum to at most 1, whether or not the code added a constraint for the
  pair.
\<close>

theorem one_project_per_month:
  assumes vars: "identify_and_create_variables plan prjs m0 = (vp, vh, m1)"
    and c1: "constraints_C1 plan quotes vh m = Some m'"
    and sat: "list_all (holds a) (added m m')"
    and c: "c < len quotes"
  shows "(\<Sum>(k, h)\<leftarrow>filter (\<lambda>((c', j, p, mo'), h). c' = c \<and> mo' = mo) vh.
            of_bool (Value a h)) \<le> (1::int)"
proof -
  let ?query = "filter (\<lambda>r. Contractor r = c \<and> Month r = mo) plan"
  let ?E = "filter (\<lambda>((c', j, p, mo'), h). c' = c \<and> mo' = mo) vh"
  let ?g = "\<lambda>k. of_bool (Value a (the (map_of vh k))) :: int"
  let ?S = "\<Sum>r\<leftarrow>?query. ?g (key_of r)"
  note dist = identify_props(3) [OF vars]
  have "(\<Sum>(k, h)\<leftarrow>?E. of_bool (Value a h)) = sum_list (map ?g (map fst ?E))"
    unfolding map_map
  proof (rule arg_cong [where f = sum_list], rule map_cong [OF refl])
    fix e
    assume "e \<in> set ?E"
    then have "e \<in> set vh" by simp
    with dist have "map_of vh (fst e) = Some (snd e)"
      by (cases e) simp
    then show "(case e of (k, h) \<Rightarrow> of_bool (Value a h)) = (?g \<circ> fst) e"
      by (cases e) simp
  qed
  also have "\<dots> \<le> sum_list (map ?g (map key_of ?query))"
  proof (rule sum_list_distinct_subset)
    from dist show "distinct (map fst ?E)"
      by (rule distinct_map_filter)
    show "set (map fst ?E) \<subseteq> set (map key_of ?query)"
    proof
      fix k
      assume "k \<in> set (map fst ?E)"
      then obtain h where kh: "(k, h) \<in> set vh" and k: "fst k = c" "snd (snd (snd k)) = mo"
        by auto
      from kh have "k \<in> fst ` set vh" by force
      then obtain r where "r \<in> set plan" "key_of r = k"
        by (auto simp: identify_props(2) [OF vars])
      with k show "k \<in> set (map key_of ?query)"
        by (auto simp: key_of_def)
    qed
  qed simp
  also have "\<dots> = ?S"
    by (simp add: comp_def)
  also have "?S \<le> 1"
  proof (cases "length ?query > 1")
    case True
    from C1_constraint [OF c1 c True] obtain e where
      e: "hiring_sum vh ?query = Some e"
      and ct: "\<lparr>expr = Linear e LE 1, enforce = []\<rparr> \<in> set (added m m')"
      by blast
    from sat ct have "holds a \<lparr>expr = Linear e LE 1, enforce = []\<rparr>"
      by (simp add: list_all_iff)
    then show ?thesis
      by (simp add: holds_def hiring_sum_value(1) [OF e])
  next
    case False
    with sum_of_bool_le_length [of "\<lambda>r. Value a (the (map_of vh (key_of r)))" ?query]
    show ?thesis by simp
  qed
  finally show ?thesis .
qed

theorem one_project_per_month_witness:
  "identify_and_create_variables example_plan example_projects new_model
     = ([0, 1, 2], example_var_hiring, \<lparr>names = example_names, constraints = []\<rparr>) \<and>
   constraints_C1 example_plan example_quotes example_var_hiring new_model
     = Some (append_constraints (take 3 example_constraints) new_model) \<and>
   list_all (holds example_assignment)
     (added new_model (append_constraints (take 3 example_constraints) new_model)) \<and>
   0 < len example_quotes \<and>
   filter (\<lambda>((c', j, p, mo'), h). c' = 0 \<and> mo' = 0) example_var_hiring
     = [((0, 0, 0, 0), 3), ((0, 0, 1, 0), 4)] \<and>
   of_bool (Value example_assignment 3) + of_bool (Value example_assignment 4) \<le> (1::int)"
proof -
  have sat: "list_all (holds example_assignment)
     (added new_model (append_constraints (take 3 example_constraints) new_model))"
    by (simp add: example_constraints_def example_assignment_def holds_def Value_def lin_value_def)
  have c: "0 < len example_quotes"
    by (simp add: len_def example_quotes_def)
  have f: "filter (\<lambda>((c', j, p, mo'), h). c' = 0 \<and> mo' = 0) example_var_hiring
     = [((0, 0, 0, 0), 3), ((0, 0, 1, 0), 4)]"
    by (simp add: example_var_hiring_def)
  from one_project_per_month [OF example_variables example_C1 sat c, of 0]
    example_variables example_C1 sat c f
  show ?thesis by simp
qed

section \<open>The profit margin\<close>

lemma those_map_map:
  assumes "those (map f xs) = Some ys"
    and "\<And>x y. x \<in> set xs \<Longrightarrow> f x = Some y \<Longrightarrow> g x = Some (h y)"
  shows "those (map g xs) = Some (map h ys)"
  using assms
proof (induction xs arbitrary: ys)
  case Nil
  then show ?case by simp
next
  case (Cons x xs)
  from Cons.prems(1) obtain y zs where y: "f x = Some y" and zs: "those (map f xs) = Some zs"
    and ys: "ys = y # zs"
    by (auto split: option.splits)
  from Cons.prems(2) [OF _ y] have "g x = Some (h y)" by simp
  moreover from Cons.IH [OF zs] Cons.prems(2) have "those (map g xs) = Some (map h zs)"
    by simp
  ultimately show ?case
    by (simp add: ys)
qed

lemma lin_value_minus_expr:
  "lin_value a (minus_expr e1 e2) = lin_value a e1 - lin_value a e2"
proof -
  have "lin_value a (map (\<lambda>(k, v). (- k, v)) e) = - lin_value a e" for e
    by (induction e) (auto simp: lin_value_def)
  then show ?thesis
    by (simp add: minus_expr_def lin_value_def)
qed

lemma callback_revenue_eq:
  assumes "revenue_expr value vp = Some revenue"
    and "value_df sp = value" and "var_projects sp = vp"
  shows "callback_revenue a sp = Some (lin_value a revenue)"
proof -
  have "those (map (\<lambda>p. do { x \<leftarrow> value_of value p; v \<leftarrow> nth_opt vp p;
                                Some (x * of_bool (Value a v)) }) [0..<len value])
          = Some (map (\<lambda>(k, v). k * of_bool (Value a v)) revenue)"
    by (rule those_map_map [OF assms(1) [unfolded revenue_expr_def]])
      (auto split: Option.bind_splits)
  then show ?thesis
    by (simp add: callback_revenue_def assms(2,3) lin_value_def)
qed

lemma callback_costs_eq:
  assumes "costs_expr plan vh = Some costs"
    and "project_plan sp = plan" and "var_hiring sp = vh"
  shows "callback_costs a sp = Some (lin_value a costs)"
proof -
  have "those (map (\<lambda>r. do { v \<leftarrow> map_of vh (key_of r);
                                Some (of_bool (Value a v) * astype_int (Quote r)) }) plan)
          = Some (map (\<lambda>(k, v). k * of_bool (Value a v)) costs)"
    by (rule those_map_map [OF assms(1) [unfolded costs_expr_def]])
      (auto split: Option.bind_splits)
  then show ?thesis
    by (simp add: callback_costs_def assms(2,3) lin_value_def)
qed

text \<open>
  C5. When part C.5 has added its constraint and an assignment satisfies it, the revenue
  and the costs the callback recomputes for that assignment are the values of the two
  linear expressions of the constraint, their difference is at least 2500, and the
  profit margin line of the block the callback prints shows that difference.
\<close>

theorem profit_margin_at_least_2500:
  assumes c5: "constraints_C5 plan value vh vp m = Some (revenue, costs, m')"
    and sat: "list_all (holds a) (added m m')"
    and sp: "project_plan sp = plan" "value_df sp = value" "var_hiring sp = vh"
            "var_projects sp = vp"
  shows "callback_revenue a sp = Some (lin_value a revenue) \<and>
         callback_costs a sp = Some (lin_value a costs) \<and>
         2500 \<le> lin_value a revenue - lin_value a costs \<and>
         (\<forall>sp' out. planning_OnSolutionCallback a sp = Some (sp', out) \<longrightarrow>
            [Str ''Profit margin:'', Str (str_int (lin_value a revenue - lin_value a costs))]
              \<in> set out)"
proof -
  from c5 have rev: "revenue_expr value vp = Some revenue"
    and cst: "costs_expr plan vh = Some costs"
    and m': "m' = append_constraints [\<lparr>expr = Linear (minus_expr revenue costs) GE 2500,
                                        enforce = []\<rparr>] m"
    by (auto simp: constraints_C5_def Add_def add_constraint_def append_constraints_def
        split: Option.bind_splits)
  from sat have "2500 \<le> lin_value a revenue - lin_value a costs"
    by (simp add: m' holds_def lin_value_minus_expr)
  moreover note r = callback_revenue_eq [OF rev sp(2,4), of a]
  moreover note c = callback_costs_eq [OF cst sp(1,3), of a]
  moreover have "[Str ''Profit margin:'', Str (str_int (lin_value a revenue - lin_value a costs))]
      \<in> set out" if "planning_OnSolutionCallback a sp = Some (sp', out)" for sp' out
    using that by (auto simp: planning_OnSolutionCallback_def r c Let_def split: Option.bind_splits)
  ultimately show ?thesis
    by blast
qed

end
